theory Spec2Isabelle
  imports Complex_Main
begin

section \<open>JavaScript numbers and exceptions\<close>

text \<open>
  The network of \<^verbatim>\<open>src/network.ts\<close> computes on JavaScript numbers held in numjs arrays.
  A number is NaN, one of the two infinities, or finite. Finite numbers are idealised as
  reals and arithmetic on them is exact: rounding and overflow to infinity are not part of
  this model, and there is one zero. NaN and the infinities follow the rules of IEEE 754.
\<close>

datatype js_number = Num real | PosInf | NegInf | NaN

fun js_add :: "js_number \<Rightarrow> js_number \<Rightarrow> js_number" where
  "js_add (Num a) (Num b) = Num (a + b)"
| "js_add NaN y = NaN"
| "js_add x NaN = NaN"
| "js_add PosInf NegInf = NaN"
| "js_add NegInf PosInf = NaN"
| "js_add PosInf y = PosInf"
| "js_add x PosInf = PosInf"
| "js_add NegInf y = NegInf"
| "js_add x NegInf = NegInf"

fun js_neg :: "js_number \<Rightarrow> js_number" where
  "js_neg (Num a) = Num (- a)"
| "js_neg PosInf = NegInf"
| "js_neg NegInf = PosInf"
| "js_neg NaN = NaN"

text \<open>An infinity of the sign of \<open>s\<close>; \<open>0 * Infinity\<close> and \<open>0 / 0\<close> are NaN.\<close>

definition js_signed_inf :: "real \<Rightarrow> js_number" where
  "js_signed_inf s = (if s = 0 then NaN else if 0 < s then PosInf else NegInf)"

fun js_mul :: "js_number \<Rightarrow> js_number \<Rightarrow> js_number" where
  "js_mul (Num a) (Num b) = Num (a * b)"
| "js_mul NaN y = NaN"
| "js_mul x NaN = NaN"
| "js_mul PosInf PosInf = PosInf"
| "js_mul PosInf NegInf = NegInf"
| "js_mul NegInf PosInf = NegInf"
| "js_mul NegInf NegInf = PosInf"
| "js_mul PosInf (Num b) = js_signed_inf b"
| "js_mul NegInf (Num b) = js_signed_inf (- b)"
| "js_mul (Num a) PosInf = js_signed_inf a"
| "js_mul (Num a) NegInf = js_signed_inf (- a)"

fun js_div :: "js_number \<Rightarrow> js_number \<Rightarrow> js_number" where
  "js_div (Num a) (Num b) = (if b = 0 then js_signed_inf a else Num (a / b))"
| "js_div NaN y = NaN"
| "js_div x NaN = NaN"
| "js_div (Num a) PosInf = Num 0"
| "js_div (Num a) NegInf = Num 0"
| "js_div PosInf (Num b) = (if 0 \<le> b then PosInf else NegInf)"
| "js_div NegInf (Num b) = (if 0 \<le> b then NegInf else PosInf)"
| "js_div x y = NaN"

text \<open>\<^verbatim>\<open>Math.exp\<close>\<close>

fun js_exp :: "js_number \<Rightarrow> js_number" where
  "js_exp (Num a) = Num (exp a)"
| "js_exp PosInf = PosInf"
| "js_exp NegInf = Num 0"
| "js_exp NaN = NaN"

instantiation js_number :: "{comm_monoid_add, times, one, minus, uminus}"
begin

definition zero_js_number_def: "0 = Num 0"
definition one_js_number_def: "1 = Num 1"
definition plus_js_number_def: "a + b = js_add a b"
definition uminus_js_number_def: "- a = js_neg a"
definition minus_js_number_def: "a - b = js_add a (js_neg b)"
definition times_js_number_def: "a * b = js_mul a b"

instance
proof
  fix a b c :: js_number
  show "a + b + c = a + (b + c)"
    by (cases a; cases b; cases c) (simp_all add: plus_js_number_def)
  show "a + b = b + a"
    by (cases a; cases b) (simp_all add: plus_js_number_def)
  show "0 + a = a"
    by (cases a) (simp_all add: plus_js_number_def zero_js_number_def)
qed

end

text \<open>
  The three ways in which the code can throw are kept as values:
  \<^item> \<open>ValueError\<close>: the exception numjs raises in \<^verbatim>\<open>dot\<close> when the inner dimensions of
    the two arrays differ (the dimension mismatch of the specification);
  \<^item> \<open>PlainError\<close>: the plain \<^verbatim>\<open>Error\<close> that the elementwise operations of numjs raise
    when the two arrays do not have the same shape;
  \<^item> \<open>TypeError\<close>: the exception JavaScript raises when \<^verbatim>\<open>const { inputs, targets } = v\<close>
    destructures an undefined \<^verbatim>\<open>v\<close> (the invalid argument of the specification: an index
    with no training item behind it).
\<close>

datatype error = ValueError | PlainError | TypeError

section \<open>numjs arrays\<close>

text \<open>
  Every array of the program is two-dimensional. An array is its shape and its rows.
\<close>

record ndarray =
  nrows :: nat
  ncols :: nat
  entries :: "js_number list list"

definition nd_get :: "ndarray \<Rightarrow> nat \<Rightarrow> nat \<Rightarrow> js_number" where
  "nd_get a i j = entries a ! i ! j"

definition nd_tabulate :: "nat \<Rightarrow> nat \<Rightarrow> (nat \<Rightarrow> nat \<Rightarrow> js_number) \<Rightarrow> ndarray" where
  "nd_tabulate r c f =
     \<lparr>nrows = r, ncols = c, entries = map (\<lambda>i. map (\<lambda>j. f i j) [0..<c]) [0..<r]\<rparr>"

text \<open>\<^verbatim>\<open>nj.array(xs).reshape(1, xs.length)\<close>: one row holding \<open>xs\<close>.\<close>

definition nj_array_row :: "js_number list \<Rightarrow> ndarray" where
  "nj_array_row xs = \<lparr>nrows = 1, ncols = length xs, entries = [xs]\<rparr>"

text \<open>\<^verbatim>\<open>a.T\<close>\<close>

definition nd_T :: "ndarray \<Rightarrow> ndarray" where
  "nd_T a = nd_tabulate (ncols a) (nrows a) (\<lambda>i j. nd_get a j i)"

text \<open>
  \<^verbatim>\<open>a.dot(b)\<close> on two-dimensional arrays: the matrix product when the number of columns
  of \<open>a\<close> is the number of rows of \<open>b\<close>, and a thrown ValueError otherwise.
\<close>

definition nd_dot :: "ndarray \<Rightarrow> ndarray \<Rightarrow> error + ndarray" where
  "nd_dot a b =
     (if ncols a = nrows b
      then Inr (nd_tabulate (nrows a) (ncols b)
                  (\<lambda>i j. sum_list (map (\<lambda>k. nd_get a i k * nd_get b k j) [0..<ncols a])))
      else Inl ValueError)"

text \<open>
  The elementwise operations \<^verbatim>\<open>a.add(b)\<close>, \<^verbatim>\<open>a.subtract(b)\<close> and \<^verbatim>\<open>a.multiply(b)\<close> on two
  arrays go through cwise, which compares the two shapes first and throws the plain
  \<^verbatim>\<open>Error\<close> "Arrays do not all have the same shape!" when they differ. On equal shapes the
  result is a fresh array of that shape.
\<close>

definition elementwise ::
  "(js_number \<Rightarrow> js_number \<Rightarrow> js_number) \<Rightarrow> ndarray \<Rightarrow> ndarray \<Rightarrow> ndarray" where
  "elementwise f a b = nd_tabulate (nrows a) (ncols a) (\<lambda>i j. f (nd_get a i j) (nd_get b i j))"

definition cwise ::
  "(js_number \<Rightarrow> js_number \<Rightarrow> js_number) \<Rightarrow> ndarray \<Rightarrow> ndarray \<Rightarrow> error + ndarray" where
  "cwise f a b =
     (if nrows a = nrows b \<and> ncols a = ncols b then Inr (elementwise f a b)
      else Inl PlainError)"

definition nd_add :: "ndarray \<Rightarrow> ndarray \<Rightarrow> error + ndarray" where
  "nd_add a b = cwise (+) a b"

definition nd_subtract :: "ndarray \<Rightarrow> ndarray \<Rightarrow> error + ndarray" where
  "nd_subtract a b = cwise (-) a b"

definition nd_multiply :: "ndarray \<Rightarrow> ndarray \<Rightarrow> error + ndarray" where
  "nd_multiply a b = cwise (*) a b"

text \<open>\<^verbatim>\<open>a.multiply(x)\<close> and \<^verbatim>\<open>a.subtract(x)\<close> with a number \<open>x\<close>: no shapes to compare.\<close>

definition nd_multiply_scalar :: "ndarray \<Rightarrow> js_number \<Rightarrow> ndarray" where
  "nd_multiply_scalar a x = nd_tabulate (nrows a) (ncols a) (\<lambda>i j. nd_get a i j * x)"

definition nd_subtract_scalar :: "ndarray \<Rightarrow> js_number \<Rightarrow> ndarray" where
  "nd_subtract_scalar a x = nd_tabulate (nrows a) (ncols a) (\<lambda>i j. nd_get a i j - x)"

text \<open>\<^verbatim>\<open>nj.ones([r, c])\<close>\<close>

definition nj_ones :: "nat \<Rightarrow> nat \<Rightarrow> ndarray" where
  "nj_ones r c = nd_tabulate r c (\<lambda>i j. 1)"

text \<open>
  \<^verbatim>\<open>nj.random([r, c])\<close>: the numbers drawn are a parameter, \<open>rnd i j\<close> the one placed at
  row \<open>i\<close>, column \<open>j\<close>.
\<close>

definition nj_random :: "(nat \<Rightarrow> nat \<Rightarrow> js_number) \<Rightarrow> nat \<Rightarrow> nat \<Rightarrow> ndarray" where
  "nj_random rnd r c = nd_tabulate r c rnd"

section \<open>Activation strategies\<close>

text \<open>
  \<^verbatim>\<open>ActivationStrategy\<close> is imported from \<^verbatim>\<open>./activators\<close>; the network only calls its
  \<^verbatim>\<open>execute\<close> method on an array. A strategy is therefore any function on arrays.
\<close>

datatype ActivationStrategy = ActivationStrategy (execute: "ndarray \<Rightarrow> ndarray")

definition nd_map :: "(js_number \<Rightarrow> js_number) \<Rightarrow> ndarray \<Rightarrow> ndarray" where
  "nd_map f a = nd_tabulate (nrows a) (ncols a) (\<lambda>i j. f (nd_get a i j))"

text \<open>
  Modelled from the spec: the class \<^verbatim>\<open>Sigmoid\<close> of \<^verbatim>\<open>./activators\<close>, which is not among the
  sources. The specification calls it the logistic sigmoid and requires \<^verbatim>\<open>execute\<close> to be
  applied elementwise, with the same shape in and out. The logistic function is computed
  on JavaScript numbers as \<^verbatim>\<open>1 / (1 + Math.exp(-x))\<close>: it is NaN at NaN, 1 at
  \<^verbatim>\<open>Infinity\<close> and 0 at \<^verbatim>\<open>-Infinity\<close>.
\<close>

definition sigmoid :: "js_number \<Rightarrow> js_number" where
  "sigmoid x = js_div 1 (1 + js_exp (- x))"

definition Sigmoid :: ActivationStrategy where
  "Sigmoid = ActivationStrategy (nd_map sigmoid)"

text \<open>The contract of the specification on a strategy: the shape goes through unchanged.\<close>

definition shape_preserving :: "ActivationStrategy \<Rightarrow> bool" where
  "shape_preserving s \<longleftrightarrow>
     (\<forall>a. nrows (execute s a) = nrows a \<and> ncols (execute s a) = ncols a)"

section \<open>The network\<close>

record IForwardResult =
  hiddenOutputs :: ndarray
  finalOutputs :: ndarray

record ITrainItem =
  inputs :: "js_number list"
  targets :: "js_number list"

type_synonym TrainSet = "ITrainItem list"

record Network =
  weightsIH :: ndarray
  weightsHO :: ndarray
  activator :: ActivationStrategy
  inputSize :: nat
  hiddenSize :: nat
  outputSize :: nat
  LR :: js_number

definition generateWeights :: "(nat \<Rightarrow> nat \<Rightarrow> js_number) \<Rightarrow> nat \<Rightarrow> nat \<Rightarrow> ndarray" where
  "generateWeights rnd rows columns =
     nd_subtract_scalar (nj_random rnd rows columns) (Num 0.5)"

text \<open>
  The constructor. \<open>rnd1\<close> and \<open>rnd2\<close> are the numbers drawn by the two calls of
  \<^verbatim>\<open>generateWeights\<close>; the learning rate is optional and defaults to 0.3.
\<close>

definition new_Network ::
  "(nat \<Rightarrow> nat \<Rightarrow> js_number) \<Rightarrow> (nat \<Rightarrow> nat \<Rightarrow> js_number) \<Rightarrow> nat \<Rightarrow> nat \<Rightarrow> nat
     \<Rightarrow> js_number option \<Rightarrow> Network" where
  "new_Network rnd1 rnd2 inputSize' hiddenSize' outputSize' lr =
     \<lparr>weightsIH = generateWeights rnd1 hiddenSize' inputSize',
      weightsHO = generateWeights rnd2 outputSize' hiddenSize',
      activator = Sigmoid,
      inputSize = inputSize',
      hiddenSize = hiddenSize',
      outputSize = outputSize',
      LR = (case lr of None \<Rightarrow> Num 0.3 | Some v \<Rightarrow> v)\<rparr>"

definition forwardPropagation :: "Network \<Rightarrow> ndarray \<Rightarrow> error + IForwardResult" where
  "forwardPropagation net inputMatrix =
     (case nd_dot (weightsIH net) inputMatrix of
        Inl e \<Rightarrow> Inl e
      | Inr hiddenInputs \<Rightarrow>
          (case nd_dot (weightsHO net) (execute (activator net) hiddenInputs) of
             Inl e \<Rightarrow> Inl e
           | Inr finalInputs \<Rightarrow>
               Inr \<lparr>hiddenOutputs = execute (activator net) hiddenInputs,
                    finalOutputs = execute (activator net) finalInputs\<rparr>))"

text \<open>\<^verbatim>\<open>nj.array(xs).reshape(1, xs.length).T\<close>: the column holding \<open>xs\<close>.\<close>

definition column :: "js_number list \<Rightarrow> ndarray" where
  "column xs = nd_T (nj_array_row xs)"

definition query :: "Network \<Rightarrow> js_number list \<Rightarrow> error + ndarray" where
  "query net xs =
     (case forwardPropagation net (column xs) of
        Inl e \<Rightarrow> Inl e
      | Inr r \<Rightarrow> Inr (finalOutputs r))"

text \<open>
  \<^verbatim>\<open>calcAdditionalWeights\<close>, each call in the order JavaScript evaluates it:
  \<^verbatim>\<open>errors.multiply(outputs)\<close>, then \<^verbatim>\<open>nj.subtract(ones, outputs)\<close>, then the second
  \<^verbatim>\<open>multiply\<close>, then \<^verbatim>\<open>dot\<close>.
\<close>

definition calcAdditionalWeights ::
  "Network \<Rightarrow> ndarray \<Rightarrow> ndarray \<Rightarrow> ndarray \<Rightarrow> error + ndarray" where
  "calcAdditionalWeights net ins outs errs =
     (case nd_multiply errs outs of
        Inl e \<Rightarrow> Inl e
      | Inr eo \<Rightarrow>
          (case nd_subtract (nj_ones (nrows outs) (ncols outs)) outs of
             Inl e \<Rightarrow> Inl e
           | Inr om \<Rightarrow>
               (case nd_multiply eo om of
                  Inl e \<Rightarrow> Inl e
                | Inr arg1 \<Rightarrow>
                    (case nd_dot arg1 (nd_T ins) of
                       Inl e \<Rightarrow> Inl e
                     | Inr d \<Rightarrow> Inr (nd_multiply_scalar d (LR net))))))"

text \<open>
  \<^verbatim>\<open>backPropagation\<close> returns the outcome together with the network as it leaves it. The
  two assignments are its last two statements: an exception before them leaves the network
  as it was, and an exception in \<^verbatim>\<open>this.weightsIH.add(additionalIH)\<close> leaves it with the
  new \<open>weightsHO\<close> already assigned.
\<close>

definition backPropagation ::
  "Network \<Rightarrow> ndarray \<Rightarrow> ndarray \<Rightarrow> IForwardResult \<Rightarrow> (error + unit) \<times> Network" where
  "backPropagation net inputMatrix targetMatrix result =
     (case nd_subtract targetMatrix (finalOutputs result) of
        Inl e \<Rightarrow> (Inl e, net)
      | Inr outputErrors \<Rightarrow>
     (case nd_dot (nd_T (weightsHO net)) outputErrors of
        Inl e \<Rightarrow> (Inl e, net)
      | Inr hiddenErrors \<Rightarrow>
     (case calcAdditionalWeights net (hiddenOutputs result) (finalOutputs result)
             outputErrors of
        Inl e \<Rightarrow> (Inl e, net)
      | Inr additionalHO \<Rightarrow>
     (case calcAdditionalWeights net inputMatrix (hiddenOutputs result) hiddenErrors of
        Inl e \<Rightarrow> (Inl e, net)
      | Inr additionalIH \<Rightarrow>
     (case nd_add (weightsHO net) additionalHO of
        Inl e \<Rightarrow> (Inl e, net)
      | Inr newHO \<Rightarrow>
     (case nd_add (weightsIH (net\<lparr>weightsHO := newHO\<rparr>)) additionalIH of
        Inl e \<Rightarrow> (Inl e, net\<lparr>weightsHO := newHO\<rparr>)
      | Inr newIH \<Rightarrow> (Inr (), net\<lparr>weightsHO := newHO, weightsIH := newIH\<rparr>)))))))"

definition trainStep ::
  "Network \<Rightarrow> js_number list \<Rightarrow> js_number list \<Rightarrow> (error + unit) \<times> Network" where
  "trainStep net xs ts =
     (case forwardPropagation net (column xs) of
        Inl e \<Rightarrow> (Inl e, net)
      | Inr forwardResult \<Rightarrow> backPropagation net (column xs) (column ts) forwardResult)"

text \<open>
  \<^verbatim>\<open>trainSet[randIndex]\<close>: JavaScript yields \<^verbatim>\<open>undefined\<close> (here \<open>None\<close>) for an index
  outside the array.
\<close>

definition js_index :: "'a list \<Rightarrow> int \<Rightarrow> 'a option" where
  "js_index xs i = (if 0 \<le> i \<and> i < int (length xs) then Some (xs ! nat i) else None)"

text \<open>
  The loop of \<^verbatim>\<open>train\<close>. \<^verbatim>\<open>getRandomInt\<close> is imported from \<^verbatim>\<open>./utils\<close> and is a parameter:
  \<open>getRandomInt k lo hi\<close> is the integer its \<open>k\<close>-th call in this run returns for the
  arguments \<open>lo\<close> and \<open>hi\<close>. The result pairs the outcome (the exception thrown, or normal
  return) with the network as the call leaves it: an exception in one iteration leaves the
  weights of the iterations before it in place. The count is an integer, as the
  specification types it; a negative one runs no iteration.
\<close>

function train_loop ::
  "(nat \<Rightarrow> int \<Rightarrow> int \<Rightarrow> int) \<Rightarrow> nat \<Rightarrow> TrainSet \<Rightarrow> int \<Rightarrow> Network \<Rightarrow> (error + unit) \<times> Network" where
  "train_loop getRandomInt k trainSet counter net =
     (if counter > 0 then
        (case js_index trainSet (getRandomInt k 0 (int (length trainSet))) of
           None \<Rightarrow> (Inl TypeError, net)
         | Some item \<Rightarrow>
             (case fst (trainStep net (inputs item) (targets item)) of
                Inl e \<Rightarrow> (Inl e, snd (trainStep net (inputs item) (targets item)))
              | Inr u \<Rightarrow>
                  train_loop getRandomInt (Suc k) trainSet (counter - 1)
                    (snd (trainStep net (inputs item) (targets item)))))
      else (Inr (), net))"
  by pat_completeness auto
termination
  by (relation "measure (\<lambda>(g, k, s, counter, n). nat counter)") auto

text \<open>
  \<^verbatim>\<open>train(trainSet, count, activator?)\<close>: an activator that is passed is an object, so
  \<^verbatim>\<open>Boolean(activator)\<close> holds and it is stored before the loop starts.
\<close>

definition train ::
  "(nat \<Rightarrow> int \<Rightarrow> int \<Rightarrow> int) \<Rightarrow> Network \<Rightarrow> TrainSet \<Rightarrow> int \<Rightarrow> ActivationStrategy option
     \<Rightarrow> (error + unit) \<times> Network" where
  "train getRandomInt net trainSet count act =
     train_loop getRandomInt 0 trainSet count
       (case act of None \<Rightarrow> net | Some a \<Rightarrow> net\<lparr>activator := a\<rparr>)"

text \<open>
  The shapes the constructor gives the two weight matrices, as an invariant of a network.
\<close>

definition shapes_ok :: "Network \<Rightarrow> bool" where
  "shapes_ok net \<longleftrightarrow>
     nrows (weightsIH net) = hiddenSize net \<and> ncols (weightsIH net) = inputSize net \<and>
     nrows (weightsHO net) = outputSize net \<and> ncols (weightsHO net) = hiddenSize net"

section \<open>Notions of the specification\<close>

text \<open>The shape of an array, and what it is for the rows to have that shape.\<close>

definition nd_shape :: "ndarray \<Rightarrow> nat \<times> nat" where
  "nd_shape a = (nrows a, ncols a)"

definition nd_consistent :: "ndarray \<Rightarrow> bool" where
  "nd_consistent a \<longleftrightarrow>
     length (entries a) = nrows a \<and> list_all (\<lambda>row. length row = ncols a) (entries a)"

text \<open>
  The operations on matrices of the specification, entry by entry, with no check of the
  shapes: the product, whose entry at row \<open>i\<close>, column \<open>j\<close> is \<open>\<Sum>k. a\<^sub>i\<^sub>k * b\<^sub>k\<^sub>j\<close>, the sum,
  the difference, the elementwise product \<open>\<odot>\<close>, and the product of a number and a matrix.
\<close>

definition matrix_product :: "ndarray \<Rightarrow> ndarray \<Rightarrow> ndarray" where
  "matrix_product a b =
     nd_tabulate (nrows a) (ncols b) (\<lambda>i j. \<Sum>k<ncols a. nd_get a i k * nd_get b k j)"

definition matrix_plus :: "ndarray \<Rightarrow> ndarray \<Rightarrow> ndarray" where
  "matrix_plus a b = nd_tabulate (nrows a) (ncols a) (\<lambda>i j. nd_get a i j + nd_get b i j)"

definition matrix_minus :: "ndarray \<Rightarrow> ndarray \<Rightarrow> ndarray" where
  "matrix_minus a b = nd_tabulate (nrows a) (ncols a) (\<lambda>i j. nd_get a i j - nd_get b i j)"

definition hadamard :: "ndarray \<Rightarrow> ndarray \<Rightarrow> ndarray" where
  "hadamard a b = nd_tabulate (nrows a) (ncols a) (\<lambda>i j. nd_get a i j * nd_get b i j)"

definition scale :: "js_number \<Rightarrow> ndarray \<Rightarrow> ndarray" where
  "scale c a = nd_tabulate (nrows a) (ncols a) (\<lambda>i j. c * nd_get a i j)"

text \<open>
  The quantities of the backward pass in the words of the specification:
  \<^item> \<open>outputErrors = targetColumn - finalOutputs\<close>;
  \<^item> \<open>hiddenErrors = weightsHO\<^sup>T \<cdot> outputErrors\<close>;
  \<^item> \<open>\<Delta> = LR \<cdot> [(errors \<odot> outputs \<odot> (1 - outputs)) \<cdot> inputs\<^sup>T]\<close>.
\<close>

definition spec_outputErrors :: "ndarray \<Rightarrow> IForwardResult \<Rightarrow> ndarray" where
  "spec_outputErrors t r = matrix_minus t (finalOutputs r)"

definition spec_hiddenErrors :: "ndarray \<Rightarrow> ndarray \<Rightarrow> IForwardResult \<Rightarrow> ndarray" where
  "spec_hiddenErrors w t r = matrix_product (nd_T w) (spec_outputErrors t r)"

definition spec_delta :: "js_number \<Rightarrow> ndarray \<Rightarrow> ndarray \<Rightarrow> ndarray \<Rightarrow> ndarray" where
  "spec_delta lr errs outs ins =
     scale lr
       (matrix_product
          (hadamard (hadamard errs outs)
             (matrix_minus (nj_ones (nrows outs) (ncols outs)) outs))
          (nd_T ins))"

text \<open>
  Training with a given strategy, in the words of the specification: the forward pass
  applies \<open>a\<close> to \<open>weightsIH \<cdot> inputColumn\<close> and to \<open>weightsHO \<cdot> hiddenOutputs\<close>, a step is
  this forward pass followed by the backward pass on its result, and a run draws an item
  and makes a step, \<open>count\<close> times. None of the three reads the strategy the network stores.
\<close>

definition forward_using ::
  "ActivationStrategy \<Rightarrow> ndarray \<Rightarrow> ndarray \<Rightarrow> ndarray \<Rightarrow> error + IForwardResult" where
  "forward_using a wIH wHO x =
     (case nd_dot wIH x of
        Inl e \<Rightarrow> Inl e
      | Inr hiddenInputs \<Rightarrow>
          (case nd_dot wHO (execute a hiddenInputs) of
             Inl e \<Rightarrow> Inl e
           | Inr finalInputs \<Rightarrow>
               Inr \<lparr>hiddenOutputs = execute a hiddenInputs,
                    finalOutputs = execute a finalInputs\<rparr>))"

definition step_using ::
  "ActivationStrategy \<Rightarrow> Network \<Rightarrow> ITrainItem \<Rightarrow> (error + unit) \<times> Network" where
  "step_using a net item =
     (case forward_using a (weightsIH net) (weightsHO net) (column (inputs item)) of
        Inl e \<Rightarrow> (Inl e, net)
      | Inr r \<Rightarrow> backPropagation net (column (inputs item)) (column (targets item)) r)"

function run_using ::
  "ActivationStrategy \<Rightarrow> (nat \<Rightarrow> int \<Rightarrow> int \<Rightarrow> int) \<Rightarrow> nat \<Rightarrow> TrainSet \<Rightarrow> int \<Rightarrow> Network
     \<Rightarrow> (error + unit) \<times> Network" where
  "run_using a draw k items n net =
     (if n \<le> 0 then (Inr (), net)
      else
        (case js_index items (draw k 0 (int (length items))) of
           None \<Rightarrow> (Inl TypeError, net)
         | Some item \<Rightarrow>
             (case fst (step_using a net item) of
                Inl e \<Rightarrow> (Inl e, snd (step_using a net item))
              | Inr u \<Rightarrow> run_using a draw (Suc k) items (n - 1) (snd (step_using a net item)))))"
  by pat_completeness auto
termination
  by (relation "measure (\<lambda>(a, g, k, s, n, net). nat n)") auto

text \<open>
  Two networks with the same weights, strategy and learning rate; the three sizes recorded
  at construction are not read by \<open>train\<close> or \<open>query\<close>.
\<close>

definition same_parameters :: "Network \<Rightarrow> Network \<Rightarrow> bool" where
  "same_parameters n1 n2 \<longleftrightarrow>
     weightsIH n1 = weightsIH n2 \<and> weightsHO n1 = weightsHO n2 \<and>
     activator n1 = activator n2 \<and> LR n1 = LR n2"

text \<open>
  Any number of calls of \<open>train\<close> on one network, each with its sampler, training set,
  count and optional activator; a caller that catches the exception of one call goes on
  with the network as that call left it.
\<close>

fun train_calls ::
  "((nat \<Rightarrow> int \<Rightarrow> int \<Rightarrow> int) \<times> TrainSet \<times> int \<times> ActivationStrategy option) list
     \<Rightarrow> Network \<Rightarrow> Network" where
  "train_calls [] net = net"
| "train_calls ((g, ts, count, act) # calls) net =
     train_calls calls (snd (train g net ts count act))"

text \<open>
  A training item of the lengths the network was constructed with.
\<close>

definition well_formed_item :: "Network \<Rightarrow> ITrainItem \<Rightarrow> bool" where
  "well_formed_item net item \<longleftrightarrow>
     length (inputs item) = inputSize net \<and> length (targets item) = outputSize net"

text \<open>
  The ranges of a returned value: strictly between 0 and 1, and, more widely, NaN or
  between 0 and 1 with the two ends.
\<close>

definition in_open_unit :: "js_number \<Rightarrow> bool" where
  "in_open_unit v =
     (case v of Num r \<Rightarrow> 0 < r \<and> r < 1 | PosInf \<Rightarrow> False | NegInf \<Rightarrow> False | NaN \<Rightarrow> False)"

definition unit_or_NaN :: "js_number \<Rightarrow> bool" where
  "unit_or_NaN v =
     (case v of Num r \<Rightarrow> 0 \<le> r \<and> r \<le> 1 | PosInf \<Rightarrow> False | NegInf \<Rightarrow> False | NaN \<Rightarrow> True)"

text \<open>
  The concrete scenario of the specification: \<^verbatim>\<open>Network(2, 2, 1, 0.5)\<close> with the weights
  fixed to \<open>[[0.1, 0.2], [0.3, 0.4]]\<close> and \<open>[[0.5, 0.6]]\<close> and the sigmoid strategy; one
  training item for it; and a second strategy, which halves every entry.
\<close>

definition scenario_net :: Network where
  "scenario_net =
     \<lparr>weightsIH = \<lparr>nrows = 2, ncols = 2,
                   entries = [[Num (1/10), Num (1/5)], [Num (3/10), Num (2/5)]]\<rparr>,
      weightsHO = \<lparr>nrows = 1, ncols = 2, entries = [[Num (1/2), Num (3/5)]]\<rparr>,
      activator = Sigmoid,
      inputSize = 2, hiddenSize = 2, outputSize = 1, LR = Num (1/2)\<rparr>"

definition scenario_item :: ITrainItem where
  "scenario_item = \<lparr>inputs = [Num 1, Num 0], targets = [Num 1]\<rparr>"

definition halving :: ActivationStrategy where
  "halving = ActivationStrategy (nd_map (\<lambda>v. v * Num (1/2)))"

text \<open>
  A training item with an infinite target, and the network with infinite weights that one
  step on it leaves.
\<close>

definition infinite_target_item :: ITrainItem where
  "infinite_target_item = \<lparr>inputs = [Num 1, Num 1], targets = [PosInf]\<rparr>"

definition saturated_net :: Network where
  "saturated_net =
     scenario_net
       \<lparr>weightsHO := \<lparr>nrows = 1, ncols = 2, entries = [[PosInf, PosInf]]\<rparr>,
        weightsIH := \<lparr>nrows = 2, ncols = 2, entries = [[PosInf, PosInf], [PosInf, PosInf]]\<rparr>\<rparr>"

section \<open>Facts about the numbers\<close>

lemma js_mult_commute: "(a :: js_number) * b = b * a"
  by (cases a; cases b) (simp_all add: times_js_number_def)

lemma js_arith [simp]:
  "Num a + Num b = Num (a + b)" "Num a - Num b = Num (a - b)" "Num a * Num b = Num (a * b)"
  by (simp_all add: plus_js_number_def minus_js_number_def times_js_number_def)

lemma js_NaN [simp]:
  "NaN + x = NaN" "x + NaN = NaN" "NaN * x = NaN" "x * NaN = NaN" "NaN - x = NaN" "x - NaN = NaN"
  by (cases x; simp add: plus_js_number_def minus_js_number_def times_js_number_def)+

lemma sigmoid_values:
  "sigmoid (Num r) = Num (1 / (1 + exp (- r)))" "sigmoid PosInf = Num 1"
  "sigmoid NegInf = Num 0" "sigmoid NaN = NaN"
proof -
  have "1 + exp (- r) \<noteq> 0" using exp_gt_zero [of "- r"] by linarith
  then show "sigmoid (Num r) = Num (1 / (1 + exp (- r)))"
    by (simp add: sigmoid_def uminus_js_number_def one_js_number_def)
  show "sigmoid PosInf = Num 1" "sigmoid NegInf = Num 0" "sigmoid NaN = NaN"
    by (simp_all add: sigmoid_def uminus_js_number_def plus_js_number_def one_js_number_def)
qed

lemma logistic_open: "0 < 1 / (1 + exp (- r)) \<and> 1 / (1 + exp (- r)) < (1 :: real)"
proof -
  have e: "0 < exp (- r)" by simp
  then have pos: "0 < 1 + exp (- r)" by (simp add: add_pos_pos)
  from e pos have "1 / (1 + exp (- r)) < 1" by (simp add: field_simps)
  with pos show ?thesis by simp
qed

lemma sigmoid_range: "unit_or_NaN (sigmoid x)"
proof (cases x)
  case (Num r)
  with logistic_open [of r] show ?thesis
    by (simp add: sigmoid_values unit_or_NaN_def)
qed (simp_all add: sigmoid_values unit_or_NaN_def)

section \<open>Facts about the arrays\<close>

lemma nd_tabulate_shape [simp]:
  "nrows (nd_tabulate r c f) = r" "ncols (nd_tabulate r c f) = c"
  by (simp_all add: nd_tabulate_def)

lemma nd_get_tabulate [simp]: "i < r \<Longrightarrow> j < c \<Longrightarrow> nd_get (nd_tabulate r c f) i j = f i j"
  by (simp add: nd_get_def nd_tabulate_def)

lemma nd_tabulate_consistent [simp]: "nd_consistent (nd_tabulate r c f)"
  by (simp add: nd_consistent_def nd_tabulate_def list_all_iff)

lemma column_shape [simp]: "nrows (column xs) = length xs" "ncols (column xs) = 1"
  by (simp_all add: column_def nd_T_def nj_array_row_def)

lemma nd_get_column [simp]: "i < length xs \<Longrightarrow> nd_get (column xs) i 0 = xs ! i"
  by (simp add: column_def nd_T_def nj_array_row_def nd_get_def nd_tabulate_def)

lemma shape_simps [simp]:
  "nrows (nd_T a) = ncols a" "ncols (nd_T a) = nrows a"
  "nrows (elementwise g a b) = nrows a" "ncols (elementwise g a b) = ncols a"
  "nrows (matrix_plus a b) = nrows a" "ncols (matrix_plus a b) = ncols a"
  "nrows (matrix_minus a b) = nrows a" "ncols (matrix_minus a b) = ncols a"
  "nrows (hadamard a b) = nrows a" "ncols (hadamard a b) = ncols a"
  "nrows (nd_multiply_scalar a v) = nrows a" "ncols (nd_multiply_scalar a v) = ncols a"
  "nrows (nd_map f a) = nrows a" "ncols (nd_map f a) = ncols a"
  "nrows (nj_ones r c) = r" "ncols (nj_ones r c) = c"
  "nrows (scale v a) = nrows a" "ncols (scale v a) = ncols a"
  "nrows (matrix_product a b) = nrows a" "ncols (matrix_product a b) = ncols b"
  by (simp_all add: nd_T_def elementwise_def matrix_plus_def matrix_minus_def hadamard_def
      nd_multiply_scalar_def nd_map_def nj_ones_def scale_def matrix_product_def)

lemma get_simps:
  "i < ncols a \<Longrightarrow> j < nrows a \<Longrightarrow> nd_get (nd_T a) i j = nd_get a j i"
  "i < nrows a \<Longrightarrow> j < ncols a \<Longrightarrow> nd_get (matrix_plus a b) i j = nd_get a i j + nd_get b i j"
  "i < nrows a \<Longrightarrow> j < ncols a \<Longrightarrow> nd_get (matrix_minus a b) i j = nd_get a i j - nd_get b i j"
  "i < nrows a \<Longrightarrow> j < ncols a \<Longrightarrow> nd_get (hadamard a b) i j = nd_get a i j * nd_get b i j"
  "i < nrows a \<Longrightarrow> j < ncols a \<Longrightarrow> nd_get (nd_multiply_scalar a v) i j = nd_get a i j * v"
  "i < nrows a \<Longrightarrow> j < ncols a \<Longrightarrow> nd_get (nd_map f a) i j = f (nd_get a i j)"
  "i < r \<Longrightarrow> j < c \<Longrightarrow> nd_get (nj_ones r c) i j = 1"
  "i < nrows a \<Longrightarrow> j < ncols a \<Longrightarrow> nd_get (scale v a) i j = v * nd_get a i j"
  "i < nrows a \<Longrightarrow> j < ncols b \<Longrightarrow>
     nd_get (matrix_product a b) i j = (\<Sum>k<ncols a. nd_get a i k * nd_get b k j)"
  by (simp_all add: nd_T_def matrix_plus_def matrix_minus_def hadamard_def
      nd_multiply_scalar_def nd_map_def nj_ones_def scale_def matrix_product_def)

lemma sum_list_upt: "sum_list (map f [0..<n]) = (\<Sum>k<n. f k)"
  by (simp add: interv_sum_list_conv_sum_set_nat lessThan_atLeast0)

text \<open>
  On arrays of the right shapes the operations of numjs do not throw and are the
  operations of the specification.
\<close>

lemma nd_dot_aligned: "ncols a = nrows b \<Longrightarrow> nd_dot a b = Inr (matrix_product a b)"
  by (simp add: nd_dot_def matrix_product_def sum_list_upt)

lemma cwise_same_shape:
  assumes "nrows a = nrows b" and "ncols a = ncols b"
  shows "nd_add a b = Inr (matrix_plus a b)" and "nd_subtract a b = Inr (matrix_minus a b)"
    and "nd_multiply a b = Inr (hadamard a b)"
  using assms
  by (simp_all add: nd_add_def nd_subtract_def nd_multiply_def cwise_def elementwise_def
      matrix_plus_def matrix_minus_def hadamard_def)

lemma cwise_result:
  "cwise g a b = Inr c \<Longrightarrow> nrows c = nrows a \<and> ncols c = ncols a \<and> nd_consistent c"
  by (auto simp: cwise_def elementwise_def split: if_splits)

lemma nd_add_result:
  "nd_add a b = Inr c \<Longrightarrow> nrows c = nrows a \<and> ncols c = ncols a \<and> nd_consistent c"
  unfolding nd_add_def by (rule cwise_result)

lemma nd_multiply_scalar_scale: "nd_multiply_scalar a v = scale v a"
  by (simp add: nd_multiply_scalar_def scale_def js_mult_commute)

lemma upt_small: "[0..<2] = [0, Suc 0]" "[0..<Suc 0] = [0]"
  by (simp_all add: upt_rec)

section \<open>Facts about the activation strategies and the scenario\<close>

lemma shape_preserving_Sigmoid: "shape_preserving Sigmoid"
  by (simp add: shape_preserving_def Sigmoid_def)

lemma shape_preserving_halving: "shape_preserving halving"
  by (simp add: shape_preserving_def halving_def)

lemma scenario_fields:
  "inputSize scenario_net = 2" "hiddenSize scenario_net = 2" "outputSize scenario_net = 1"
  "LR scenario_net = Num (1/2)" "activator scenario_net = Sigmoid"
  "nrows (weightsIH scenario_net) = 2" "ncols (weightsIH scenario_net) = 2"
  "nrows (weightsHO scenario_net) = 1" "ncols (weightsHO scenario_net) = 2"
  by (simp_all add: scenario_net_def)

lemma scenario_entries:
  "nd_get (weightsHO scenario_net) 0 0 = Num (1/2)"
  "nd_get (weightsHO scenario_net) 0 (Suc 0) = Num (3/5)"
  "nd_get (weightsIH scenario_net) 0 0 = Num (1/10)"
  "nd_get (weightsIH scenario_net) 0 (Suc 0) = Num (1/5)"
  "nd_get (weightsIH scenario_net) (Suc 0) 0 = Num (3/10)"
  "nd_get (weightsIH scenario_net) (Suc 0) (Suc 0) = Num (2/5)"
  by (simp_all add: scenario_net_def nd_get_def)

lemma scenario_net_ok:
  "shapes_ok scenario_net" "shape_preserving (activator scenario_net)"
  "nd_consistent (weightsIH scenario_net)" "nd_consistent (weightsHO scenario_net)"
  by (simp_all add: scenario_net_def shapes_ok_def shape_preserving_Sigmoid nd_consistent_def)

section \<open>Facts about the training loop\<close>

declare train_loop.simps [simp del]
declare run_using.simps [simp del]

lemma js_index_Nil [simp]: "js_index [] i = None"
  by (auto simp: js_index_def)

lemma train_loop_stop: "counter \<le> 0 \<Longrightarrow> train_loop g k ts counter net = (Inr (), net)"
  by (simp add: train_loop.simps)


text \<open>
  What a backward pass leaves alone, however it ends: every field but the entries of the
  two weight matrices, whose shapes stay as they were.
\<close>

lemma backPropagation_frame:
  "activator (snd (backPropagation net x t r)) = activator net \<and>
   LR (snd (backPropagation net x t r)) = LR net \<and>
   inputSize (snd (backPropagation net x t r)) = inputSize net \<and>
   hiddenSize (snd (backPropagation net x t r)) = hiddenSize net \<and>
   outputSize (snd (backPropagation net x t r)) = outputSize net \<and>
   nrows (weightsIH (snd (backPropagation net x t r))) = nrows (weightsIH net) \<and>
   ncols (weightsIH (snd (backPropagation net x t r))) = ncols (weightsIH net) \<and>
   nrows (weightsHO (snd (backPropagation net x t r))) = nrows (weightsHO net) \<and>
   ncols (weightsHO (snd (backPropagation net x t r))) = ncols (weightsHO net)"
  by (auto simp: backPropagation_def split: sum.splits dest: nd_add_result)

lemma trainStep_frame:
  "activator (snd (trainStep net xs ts)) = activator net \<and>
   LR (snd (trainStep net xs ts)) = LR net \<and>
   inputSize (snd (trainStep net xs ts)) = inputSize net \<and>
   hiddenSize (snd (trainStep net xs ts)) = hiddenSize net \<and>
   outputSize (snd (trainStep net xs ts)) = outputSize net \<and>
   nrows (weightsIH (snd (trainStep net xs ts))) = nrows (weightsIH net) \<and>
   ncols (weightsIH (snd (trainStep net xs ts))) = ncols (weightsIH net) \<and>
   nrows (weightsHO (snd (trainStep net xs ts))) = nrows (weightsHO net) \<and>
   ncols (weightsHO (snd (trainStep net xs ts))) = ncols (weightsHO net)"
proof (cases "forwardPropagation net (column xs)")
  case (Inl e)
  then show ?thesis by (simp add: trainStep_def)
next
  case (Inr r)
  with backPropagation_frame [of net "column xs" "column ts" r] show ?thesis
    by (simp add: trainStep_def)
qed

lemma train_loop_frame:
  "activator (snd (train_loop g k ts counter net)) = activator net \<and>
   LR (snd (train_loop g k ts counter net)) = LR net \<and>
   inputSize (snd (train_loop g k ts counter net)) = inputSize net \<and>
   hiddenSize (snd (train_loop g k ts counter net)) = hiddenSize net \<and>
   outputSize (snd (train_loop g k ts counter net)) = outputSize net \<and>
   nrows (weightsIH (snd (train_loop g k ts counter net))) = nrows (weightsIH net) \<and>
   ncols (weightsIH (snd (train_loop g k ts counter net))) = ncols (weightsIH net) \<and>
   nrows (weightsHO (snd (train_loop g k ts counter net))) = nrows (weightsHO net) \<and>
   ncols (weightsHO (snd (train_loop g k ts counter net))) = ncols (weightsHO net)"
proof (induction g k ts counter net rule: train_loop.induct)
  case (1 g k ts counter net)
  show ?case
  proof (cases "0 < counter")
    case False
    then show ?thesis by (simp add: train_loop_stop)
  next
    case pos: True
    show ?thesis
    proof (cases "js_index ts (g k 0 (int (length ts)))")
      case None
      with pos show ?thesis by (simp add: train_loop.simps [of g k ts counter net])
    next
      case (Some item)
      show ?thesis
      proof (cases "fst (trainStep net (inputs item) (targets item))")
        case (Inl e)
        with pos Some trainStep_frame [of net "inputs item" "targets item"] show ?thesis
          by (simp add: train_loop.simps [of g k ts counter net])
      next
        case (Inr u)
        from "1.IH" [OF pos Some Inr] trainStep_frame [of net "inputs item" "targets item"]
          pos Some Inr
        show ?thesis by (simp add: train_loop.simps [of g k ts counter net])
      qed
    qed
  qed
qed

lemma train_activator:
  "activator (snd (train g net ts count act)) =
     (case act of None \<Rightarrow> activator net | Some a \<Rightarrow> a)"
  by (simp add: train_def train_loop_frame split: option.splits)

section \<open>Training with no iteration, and with no training item\<close>

text \<open>
  C6. \<open>train\<close> with \<open>count = 0\<close> returns normally and leaves \<open>weightsIH\<close> and \<open>weightsHO\<close>
  equal to their values before the call, for every training set (the non-empty ones
  included), every sampler, and whether or not an activator is passed.
\<close>

theorem train_zero_keeps_weights:
  "fst (train g net ts 0 act) = Inr ()
   \<and> weightsIH (snd (train g net ts 0 act)) = weightsIH net
   \<and> weightsHO (snd (train g net ts 0 act)) = weightsHO net"
  by (simp add: train_def train_loop_stop split: option.splits)

text \<open>
  C10. \<open>train\<close> with \<open>count = 0\<close> and an activator passed returns normally and leaves the
  network as it was except for the stored strategy, which is the one passed; the training
  set plays no part, so this is also so for the empty one.
\<close>

theorem train_zero_swaps_activator:
  "train g net ts 0 (Some a) = (Inr (), net\<lparr>activator := a\<rparr>)
   \<and> train g net [] 0 (Some a) = (Inr (), net\<lparr>activator := a\<rparr>)"
  by (simp add: train_def train_loop_stop)



section \<open>Replacing the activation strategy\<close>

lemma forwardPropagation_using:
  "forwardPropagation net x = forward_using (activator net) (weightsIH net) (weightsHO net) x"
  by (simp add: forwardPropagation_def forward_using_def)

lemma trainStep_using:
  "trainStep net (inputs item) (targets item) = step_using (activator net) net item"
  by (simp add: trainStep_def step_using_def forwardPropagation_using)

text \<open>
  The loop of \<open>train\<close> is the run of the specification with the strategy the network
  stores when the loop starts: no iteration changes the stored strategy, and every
  iteration applies it.
\<close>

lemma train_loop_using:
  "train_loop g k ts counter net = run_using (activator net) g k ts counter net"
proof (induction g k ts counter net rule: train_loop.induct)
  case (1 g k ts counter net)
  show ?case
  proof (cases "0 < counter")
    case False
    then show ?thesis
      by (simp add: train_loop_stop run_using.simps [of _ g k ts counter net])
  next
    case pos: True
    show ?thesis
    proof (cases "js_index ts (g k 0 (int (length ts)))")
      case None
      with pos show ?thesis
        by (simp add: train_loop.simps [of g k ts counter net]
            run_using.simps [of _ g k ts counter net])
    next
      case (Some item)
      have step: "trainStep net (inputs item) (targets item) = step_using (activator net) net item"
        by (rule trainStep_using)
      show ?thesis
      proof (cases "fst (trainStep net (inputs item) (targets item))")
        case (Inl e)
        with pos Some step show ?thesis
          by (simp add: train_loop.simps [of g k ts counter net]
              run_using.simps [of _ g k ts counter net])
      next
        case (Inr u)
        from trainStep_frame [of net "inputs item" "targets item"]
        have same: "activator (snd (trainStep net (inputs item) (targets item))) = activator net"
          by simp
        from "1.IH" [OF pos Some Inr] same pos Some Inr step show ?thesis
          by (simp add: train_loop.simps [of g k ts counter net]
              run_using.simps [of _ g k ts counter net])
      qed
    qed
  qed
qed

text \<open>
  C7. When \<open>train\<close> is called with an activator \<open>a\<close>:
  \<^item> the call is the run of the specification with \<open>a\<close>: every iteration of it computes
    its forward pass with \<open>a\<close>;
  \<^item> the network stores \<open>a\<close> when the call is over, also when the call throws;
  \<^item> a later \<open>train\<close> without an activator is again the run with \<open>a\<close>, on the network
    as the first call left it;
  \<^item> a later \<open>query\<close> is the forward pass with \<open>a\<close>.
\<close>

theorem train_activator_persists:
  "train g net ts count (Some a) = run_using a g 0 ts count (net\<lparr>activator := a\<rparr>)
   \<and> activator (snd (train g net ts count (Some a))) = a
   \<and> train g' (snd (train g net ts count (Some a))) ts' count' None =
       run_using a g' 0 ts' count' (snd (train g net ts count (Some a)))
   \<and> activator (snd (train g' (snd (train g net ts count (Some a))) ts' count' None)) = a
   \<and> query (snd (train g net ts count (Some a))) xs =
       (case forward_using a (weightsIH (snd (train g net ts count (Some a))))
               (weightsHO (snd (train g net ts count (Some a)))) (column xs) of
          Inl e \<Rightarrow> Inl e
        | Inr r \<Rightarrow> Inr (finalOutputs r))"
proof -
  let ?net' = "snd (train g net ts count (Some a))"
  have stored: "activator ?net' = a"
    by (simp add: train_activator)
  have first: "train g net ts count (Some a) = run_using a g 0 ts count (net\<lparr>activator := a\<rparr>)"
    by (simp add: train_def train_loop_using)
  have "train g' ?net' ts' count' None = run_using (activator ?net') g' 0 ts' count' ?net'"
    unfolding train_def by (simp only: option.case train_loop_using)
  then have later: "train g' ?net' ts' count' None = run_using a g' 0 ts' count' ?net'"
    by (simp only: stored)
  have kept: "activator (snd (train g' ?net' ts' count' None)) = a"
    by (simp add: train_activator stored)
  have q: "query ?net' xs =
       (case forward_using a (weightsIH ?net') (weightsHO ?net') (column xs) of
          Inl e \<Rightarrow> Inl e
        | Inr r \<Rightarrow> Inr (finalOutputs r))"
    by (simp add: query_def forwardPropagation_using stored)
  from first stored later kept q show ?thesis by blast
qed

text \<open>
  One step on the scenario with the halving strategy passed to \<open>train\<close>: the weights are
  those of a forward pass that halves, not of the sigmoid the network stored before.
\<close>

theorem train_activator_persists_witness:
  "train (\<lambda>k lo hi. 0) scenario_net [scenario_item] 1 (Some halving) =
     (Inr (),
      scenario_net
        \<lparr>activator := halving,
         weightsHO := \<lparr>nrows = 1, ncols = 2,
            entries = [[Num (1283268967 / 2560000000), Num (1545806901 / 2560000000)]]\<rparr>,
         weightsIH := \<lparr>nrows = 2, ncols = 2,
            entries = [[Num (71163 / 640000), Num (1 / 5)],
                       [Num (537681 / 1600000), Num (2 / 5)]]\<rparr>\<rparr>)"
proof -
  have fw: "forward_using halving (weightsIH scenario_net) (weightsHO scenario_net)
              (column [Num 1, Num 0]) =
            Inr \<lparr>hiddenOutputs = \<lparr>nrows = 2, ncols = 1, entries = [[Num (1/20)], [Num (3/20)]]\<rparr>,
                 finalOutputs = \<lparr>nrows = 1, ncols = 1, entries = [[Num (23/400)]]\<rparr>\<rparr>"
    by (simp add: forward_using_def nd_dot_def halving_def nd_map_def scenario_net_def
        column_def nj_array_row_def nd_T_def nd_tabulate_def nd_get_def upt_small)
  have bp: "backPropagation (scenario_net\<lparr>activator := halving\<rparr>) (column [Num 1, Num 0])
              (column [Num 1])
              \<lparr>hiddenOutputs = \<lparr>nrows = 2, ncols = 1, entries = [[Num (1/20)], [Num (3/20)]]\<rparr>,
               finalOutputs = \<lparr>nrows = 1, ncols = 1, entries = [[Num (23/400)]]\<rparr>\<rparr> =
     (Inr (),
      scenario_net
        \<lparr>activator := halving,
         weightsHO := \<lparr>nrows = 1, ncols = 2,
            entries = [[Num (1283268967 / 2560000000), Num (1545806901 / 2560000000)]]\<rparr>,
         weightsIH := \<lparr>nrows = 2, ncols = 2,
            entries = [[Num (71163 / 640000), Num (1 / 5)],
                       [Num (537681 / 1600000), Num (2 / 5)]]\<rparr>\<rparr>)"
    by (simp add: backPropagation_def calcAdditionalWeights_def nd_dot_def nd_add_def
        nd_subtract_def nd_multiply_def cwise_def elementwise_def nd_multiply_scalar_def
        nj_ones_def scenario_net_def column_def nj_array_row_def nd_T_def nd_tabulate_def
        nd_get_def upt_small one_js_number_def)
  have step: "step_using halving (scenario_net\<lparr>activator := halving\<rparr>) scenario_item =
     (Inr (),
      scenario_net
        \<lparr>activator := halving,
         weightsHO := \<lparr>nrows = 1, ncols = 2,
            entries = [[Num (1283268967 / 2560000000), Num (1545806901 / 2560000000)]]\<rparr>,
         weightsIH := \<lparr>nrows = 2, ncols = 2,
            entries = [[Num (71163 / 640000), Num (1 / 5)],
                       [Num (537681 / 1600000), Num (2 / 5)]]\<rparr>\<rparr>)"
    using fw bp by (simp add: step_using_def scenario_item_def)
  have "run_using halving (\<lambda>k lo hi. 0) 0 [scenario_item] 1 (scenario_net\<lparr>activator := halving\<rparr>)
      = (Inr (),
      scenario_net
        \<lparr>activator := halving,
         weightsHO := \<lparr>nrows = 1, ncols = 2,
            entries = [[Num (1283268967 / 2560000000), Num (1545806901 / 2560000000)]]\<rparr>,
         weightsIH := \<lparr>nrows = 2, ncols = 2,
            entries = [[Num (71163 / 640000), Num (1 / 5)],
                       [Num (537681 / 1600000), Num (2 / 5)]]\<rparr>\<rparr>)"
    by (simp add: run_using.simps [of _ _ _ _ 1] run_using.simps [of _ _ _ _ 0]
        js_index_def step)
  with train_activator_persists
    [of "\<lambda>k lo hi. 0" scenario_net "[scenario_item]" 1 halving]
  show ?thesis by simp
qed

section \<open>Forward propagation\<close>

lemma forwardPropagation_aligned:
  assumes "shapes_ok net" and "shape_preserving (activator net)" and "nrows x = inputSize net"
  shows "forwardPropagation net x =
     Inr \<lparr>hiddenOutputs = execute (activator net) (matrix_product (weightsIH net) x),
          finalOutputs = execute (activator net) (matrix_product (weightsHO net)
             (execute (activator net) (matrix_product (weightsIH net) x)))\<rparr>"
proof -
  from assms have one: "nd_dot (weightsIH net) x = Inr (matrix_product (weightsIH net) x)"
    by (simp add: nd_dot_aligned shapes_ok_def)
  from assms have
    "ncols (weightsHO net) = nrows (execute (activator net) (matrix_product (weightsIH net) x))"
    by (simp add: shapes_ok_def shape_preserving_def)
  then have two: "nd_dot (weightsHO net) (execute (activator net) (matrix_product (weightsIH net) x))
      = Inr (matrix_product (weightsHO net) (execute (activator net) (matrix_product (weightsIH net) x)))"
    by (rule nd_dot_aligned)
  show ?thesis by (simp add: forwardPropagation_def one two)
qed

text \<open>
  C2. On a network with the shapes of its sizes and a strategy that keeps shapes, for an
  input column of length \<open>inputSize\<close>, \<open>forwardPropagation\<close> returns normally the pair with
  \<open>hiddenOutputs = execute (weightsIH \<cdot> inputColumn)\<close> and
  \<open>finalOutputs = execute (weightsHO \<cdot> hiddenOutputs)\<close>, columns of length \<open>hiddenSize\<close>
  and \<open>outputSize\<close>. The method assigns no field, so the model returns no network; its
  result is the same on every network with these weights and this strategy.
\<close>

theorem forwardPropagation_result:
  assumes "shapes_ok net" and "shape_preserving (activator net)"
    and "nd_shape x = (inputSize net, 1)"
  shows "(\<exists>r. forwardPropagation net x = Inr r
        \<and> hiddenOutputs r = execute (activator net) (matrix_product (weightsIH net) x)
        \<and> finalOutputs r = execute (activator net) (matrix_product (weightsHO net) (hiddenOutputs r))
        \<and> nd_shape (hiddenOutputs r) = (hiddenSize net, 1)
        \<and> nd_shape (finalOutputs r) = (outputSize net, 1))
     \<and> (\<forall>net'. weightsIH net' = weightsIH net \<and> weightsHO net' = weightsHO net
            \<and> activator net' = activator net
          \<longrightarrow> forwardPropagation net' x = forwardPropagation net x)"
proof
  from assms show "\<exists>r. forwardPropagation net x = Inr r
        \<and> hiddenOutputs r = execute (activator net) (matrix_product (weightsIH net) x)
        \<and> finalOutputs r = execute (activator net) (matrix_product (weightsHO net) (hiddenOutputs r))
        \<and> nd_shape (hiddenOutputs r) = (hiddenSize net, 1)
        \<and> nd_shape (finalOutputs r) = (outputSize net, 1)"
    by (simp add: forwardPropagation_aligned nd_shape_def shape_preserving_def shapes_ok_def)
  show "\<forall>net'. weightsIH net' = weightsIH net \<and> weightsHO net' = weightsHO net
            \<and> activator net' = activator net
          \<longrightarrow> forwardPropagation net' x = forwardPropagation net x"
    by (simp add: forwardPropagation_def split: sum.splits)
qed

theorem forwardPropagation_result_witness:
  "shapes_ok scenario_net \<and> shape_preserving (activator scenario_net)
   \<and> nd_shape (column [Num 1, Num 0]) = (inputSize scenario_net, 1)
   \<and> (\<exists>r. forwardPropagation scenario_net (column [Num 1, Num 0]) = Inr r
        \<and> nd_shape (hiddenOutputs r) = (2, 1) \<and> nd_shape (finalOutputs r) = (1, 1)
        \<and> nd_get (hiddenOutputs r) 0 0 = sigmoid (Num (1/10))
        \<and> nd_get (hiddenOutputs r) 1 0 = sigmoid (Num (3/10)))"
proof -
  have h: "nd_shape (column [Num 1, Num 0]) = (inputSize scenario_net, 1)"
    by (simp add: nd_shape_def scenario_net_def)
  from forwardPropagation_result [OF scenario_net_ok(1,2) h]
  obtain r where run: "forwardPropagation scenario_net (column [Num 1, Num 0]) = Inr r"
    and ho: "hiddenOutputs r =
      execute (activator scenario_net)
        (matrix_product (weightsIH scenario_net) (column [Num 1, Num 0]))"
    and sh: "nd_shape (hiddenOutputs r) = (hiddenSize scenario_net, 1)"
      "nd_shape (finalOutputs r) = (outputSize scenario_net, 1)"
    by blast
  have two: "{..<2::nat} = {0, Suc 0}" by auto
  have a: "nd_get (hiddenOutputs r) 0 0 = sigmoid (Num (1/10))"
    unfolding ho
    by (simp add: scenario_fields Sigmoid_def get_simps two scenario_entries)
  have b: "nd_get (hiddenOutputs r) 1 0 = sigmoid (Num (3/10))"
    unfolding ho
    by (simp add: scenario_fields Sigmoid_def get_simps two scenario_entries)
  from sh have sh': "nd_shape (hiddenOutputs r) = (2, 1)" "nd_shape (finalOutputs r) = (1, 1)"
    by (simp_all add: scenario_fields)
  from scenario_net_ok(1,2) h run sh' a b show ?thesis by blast
qed

section \<open>Queries\<close>

text \<open>
  C9, as the specification states it, fails: a returned value need not lie strictly between
  0 and 1. On the scenario network, with the sigmoid strategy, the query \<open>[NaN, 0]\<close> has
  the length \<open>inputSize\<close> and returns the column \<open>[NaN]\<close>: NaN goes through both matrix
  products and through the logistic function.
\<close>

theorem query_open_range_counterexample:
  "length [NaN, Num 0] = inputSize scenario_net
   \<and> activator scenario_net = Sigmoid
   \<and> query scenario_net [NaN, Num 0] = Inr \<lparr>nrows = 1, ncols = 1, entries = [[NaN]]\<rparr>
   \<and> \<not> in_open_unit (nd_get \<lparr>nrows = 1, ncols = 1, entries = [[NaN]]\<rparr> 0 0)"
proof -
  have q: "query scenario_net [NaN, Num 0] = Inr \<lparr>nrows = 1, ncols = 1, entries = [[NaN]]\<rparr>"
    by (simp add: query_def forwardPropagation_def nd_dot_def Sigmoid_def nd_map_def
        scenario_net_def column_def nj_array_row_def nd_T_def nd_tabulate_def nd_get_def
        upt_small sigmoid_values)
  have "\<not> in_open_unit (nd_get \<lparr>nrows = 1, ncols = 1, entries = [[NaN]]\<rparr> 0 0)"
    by (simp add: in_open_unit_def nd_get_def)
  with q show ?thesis by (simp add: scenario_fields)
qed

text \<open>
  C9, amended. On a network with the shapes of its sizes and a strategy that keeps shapes,
  \<open>query\<close> with an array of length \<open>inputSize\<close> returns normally a column of length
  \<open>outputSize\<close>; when the strategy is the logistic sigmoid the column holds \<open>outputSize\<close>
  rows of one number each, and each of them is NaN or lies between 0 and 1, the two ends
  included. The ends are reached: the logistic function is 1 at \<^verbatim>\<open>Infinity\<close> and 0 at
  \<^verbatim>\<open>-Infinity\<close> (and, in the floating-point arithmetic that this model leaves out, already
  at large finite arguments).
\<close>

theorem query_shape_and_unit_range:
  assumes "shapes_ok net" and "shape_preserving (activator net)" and "length xs = inputSize net"
  shows "\<exists>out. query net xs = Inr out \<and> nd_shape out = (outputSize net, 1)
     \<and> (activator net = Sigmoid \<longrightarrow>
          nd_consistent out \<and> (\<forall>i<outputSize net. unit_or_NaN (nd_get out i 0)))"
proof -
  let ?h = "execute (activator net) (matrix_product (weightsIH net) (column xs))"
  let ?out = "execute (activator net) (matrix_product (weightsHO net) ?h)"
  from assms have fp:
    "forwardPropagation net (column xs) = Inr \<lparr>hiddenOutputs = ?h, finalOutputs = ?out\<rparr>"
    by (simp add: forwardPropagation_aligned)
  then have q: "query net xs = Inr ?out" by (simp add: query_def)
  from assms have shape: "nrows ?out = outputSize net" "ncols ?out = 1"
    by (simp_all add: shape_preserving_def shapes_ok_def)
  have range: "nd_consistent ?out \<and> (\<forall>i<outputSize net. unit_or_NaN (nd_get ?out i 0))"
    if sg: "activator net = Sigmoid"
  proof -
    let ?m = "matrix_product (weightsHO net) ?h"
    have out: "?out = nd_map sigmoid ?m" by (simp add: sg Sigmoid_def)
    from shape have m: "nrows ?m = outputSize net" "ncols ?m = 1"
      by (simp_all add: out)
    have "nd_consistent (nd_map sigmoid ?m)" by (simp add: nd_map_def)
    moreover have "unit_or_NaN (nd_get (nd_map sigmoid ?m) i 0)"
      if "i < outputSize net" for i
      using that m sigmoid_range by (simp add: get_simps(6))
    ultimately show ?thesis unfolding out by blast
  qed
  from q shape range show ?thesis by (simp add: nd_shape_def)
qed

theorem query_shape_and_unit_range_witness:
  "shapes_ok scenario_net \<and> shape_preserving (activator scenario_net)
   \<and> length [Num 1, Num 0] = inputSize scenario_net
   \<and> (\<exists>out. query scenario_net [Num 1, Num 0] = Inr out \<and> nd_shape out = (1, 1)
        \<and> unit_or_NaN (nd_get out 0 0))"
proof -
  have l: "length [Num 1, Num 0] = inputSize scenario_net"
    by (simp add: scenario_net_def)
  have sg: "activator scenario_net = Sigmoid" and o1: "outputSize scenario_net = 1"
    by (simp_all add: scenario_net_def)
  from query_shape_and_unit_range [OF scenario_net_ok(1,2) l] sg o1
  obtain out where "query scenario_net [Num 1, Num 0] = Inr out" and "nd_shape out = (1, 1)"
    and "\<forall>i<1. unit_or_NaN (nd_get out i 0)"
    by auto
  with scenario_net_ok(1,2) l show ?thesis by auto
qed

text \<open>
  The end 1 is reached on a network that training produces. One step on the scenario
  network with the target \<^verbatim>\<open>Infinity\<close> makes every weight infinite, and the next query
  returns exactly 1.
\<close>

lemma forwardPropagation_before_saturation:
  "\<exists>h0 h1 o0. 0 < h0 \<and> h0 < 1 \<and> 0 < h1 \<and> h1 < 1 \<and> 0 < o0 \<and> o0 < 1 \<and>
    forwardPropagation scenario_net (column [Num 1, Num 1]) =
      Inr \<lparr>hiddenOutputs = \<lparr>nrows = 2, ncols = 1, entries = [[Num h0], [Num h1]]\<rparr>,
           finalOutputs = \<lparr>nrows = 1, ncols = 1, entries = [[Num o0]]\<rparr>\<rparr>"
proof -
  let ?h0 = "1 / (1 + exp (- (3/10 :: real)))"
  let ?h1 = "1 / (1 + exp (- (7/10 :: real)))"
  let ?o0 = "1 / (1 + exp (- (?h0 * (1/2) + ?h1 * (3/5))))"
  have "forwardPropagation scenario_net (column [Num 1, Num 1]) =
      Inr \<lparr>hiddenOutputs = \<lparr>nrows = 2, ncols = 1, entries = [[Num ?h0], [Num ?h1]]\<rparr>,
           finalOutputs = \<lparr>nrows = 1, ncols = 1, entries = [[Num ?o0]]\<rparr>\<rparr>"
    by (simp add: forwardPropagation_def nd_dot_def Sigmoid_def nd_map_def
        scenario_net_def column_def nj_array_row_def nd_T_def nd_tabulate_def nd_get_def
        upt_small sigmoid_values mult.commute)
  with logistic_open [of "3/10"] logistic_open [of "7/10"]
    logistic_open [of "?h0 * (1/2) + ?h1 * (3/5)"]
  show ?thesis by blast
qed

lemma backPropagation_saturates:
  assumes "0 < h0" "h0 < 1" "0 < h1" "h1 < 1" "0 < o0" "o0 < 1"
  shows "backPropagation scenario_net (column [Num 1, Num 1]) (column [PosInf])
      \<lparr>hiddenOutputs = \<lparr>nrows = 2, ncols = 1, entries = [[Num h0], [Num h1]]\<rparr>,
       finalOutputs = \<lparr>nrows = 1, ncols = 1, entries = [[Num o0]]\<rparr>\<rparr> = (Inr (), saturated_net)"
  using assms
  by (simp add: backPropagation_def calcAdditionalWeights_def nd_dot_def nd_add_def
        nd_subtract_def nd_multiply_def cwise_def elementwise_def nd_multiply_scalar_def
        nj_ones_def scenario_net_def saturated_net_def column_def nj_array_row_def nd_T_def
        nd_tabulate_def nd_get_def upt_small one_js_number_def zero_js_number_def
        plus_js_number_def minus_js_number_def times_js_number_def js_signed_inf_def)

lemma train_infinite_target:
  "train (\<lambda>k lo hi. 0) scenario_net [infinite_target_item] 1 None = (Inr (), saturated_net)"
proof -
  from forwardPropagation_before_saturation obtain h0 h1 o0 where
    s: "0 < h0" "h0 < 1" "0 < h1" "h1 < 1" "0 < o0" "o0 < 1"
    and fw: "forwardPropagation scenario_net (column [Num 1, Num 1]) =
      Inr \<lparr>hiddenOutputs = \<lparr>nrows = 2, ncols = 1, entries = [[Num h0], [Num h1]]\<rparr>,
           finalOutputs = \<lparr>nrows = 1, ncols = 1, entries = [[Num o0]]\<rparr>\<rparr>"
    by blast
  from fw backPropagation_saturates [OF s]
  have step: "trainStep scenario_net [Num 1, Num 1] [PosInf] = (Inr (), saturated_net)"
    by (simp add: trainStep_def)
  show ?thesis
    by (simp add: train_def train_loop.simps [of _ _ _ 1] train_loop.simps [of _ _ _ 0]
        js_index_def infinite_target_item_def step)
qed

lemma query_reaches_one:
  "query (snd (train (\<lambda>k lo hi. 0) scenario_net [infinite_target_item] 1 None)) [Num 1, Num 1]
     = Inr \<lparr>nrows = 1, ncols = 1, entries = [[Num 1]]\<rparr>"
  unfolding train_infinite_target
  by (simp add: query_def forwardPropagation_def nd_dot_def Sigmoid_def nd_map_def
      scenario_net_def saturated_net_def column_def nj_array_row_def nd_T_def nd_tabulate_def
      nd_get_def upt_small sigmoid_values plus_js_number_def times_js_number_def
      zero_js_number_def js_signed_inf_def)

section \<open>Backward propagation\<close>

lemma calcAdditionalWeights_aligned:
  assumes "nrows errs = nrows outs" and "ncols errs = ncols outs" and "ncols errs = ncols ins"
  shows "calcAdditionalWeights net ins outs errs = Inr (spec_delta (LR net) errs outs ins)"
proof -
  from assms have eo: "nd_multiply errs outs = Inr (hadamard errs outs)"
    by (simp add: cwise_same_shape)
  have om: "nd_subtract (nj_ones (nrows outs) (ncols outs)) outs
      = Inr (matrix_minus (nj_ones (nrows outs) (ncols outs)) outs)"
    by (simp add: cwise_same_shape)
  from assms have arg1:
    "nd_multiply (hadamard errs outs) (matrix_minus (nj_ones (nrows outs) (ncols outs)) outs)
      = Inr (hadamard (hadamard errs outs)
               (matrix_minus (nj_ones (nrows outs) (ncols outs)) outs))"
    by (simp add: cwise_same_shape)
  from assms have d:
    "nd_dot (hadamard (hadamard errs outs)
               (matrix_minus (nj_ones (nrows outs) (ncols outs)) outs)) (nd_T ins)
      = Inr (matrix_product
               (hadamard (hadamard errs outs)
                  (matrix_minus (nj_ones (nrows outs) (ncols outs)) outs)) (nd_T ins))"
    by (simp add: nd_dot_aligned)
  show ?thesis
    by (simp add: calcAdditionalWeights_def eo om arg1 d spec_delta_def nd_multiply_scalar_scale)
qed

lemma backPropagation_aligned:
  assumes "shapes_ok net"
    and "nd_shape x = (inputSize net, 1)" and "nd_shape t = (outputSize net, 1)"
    and "nd_shape (hiddenOutputs r) = (hiddenSize net, 1)"
    and "nd_shape (finalOutputs r) = (outputSize net, 1)"
  shows "backPropagation net x t r =
     (Inr (),
      net\<lparr>weightsHO := matrix_plus (weightsHO net)
                 (spec_delta (LR net) (spec_outputErrors t r) (finalOutputs r) (hiddenOutputs r)),
          weightsIH := matrix_plus (weightsIH net)
                 (spec_delta (LR net) (spec_hiddenErrors (weightsHO net) t r) (hiddenOutputs r) x)\<rparr>)"
proof -
  let ?oe = "spec_outputErrors t r"
  let ?he = "spec_hiddenErrors (weightsHO net) t r"
  let ?dHO = "spec_delta (LR net) ?oe (finalOutputs r) (hiddenOutputs r)"
  let ?dIH = "spec_delta (LR net) ?he (hiddenOutputs r) x"
  from assms have sh:
    "nrows (weightsIH net) = hiddenSize net" "ncols (weightsIH net) = inputSize net"
    "nrows (weightsHO net) = outputSize net" "ncols (weightsHO net) = hiddenSize net"
    "nrows x = inputSize net" "ncols x = 1" "nrows t = outputSize net" "ncols t = 1"
    "nrows (hiddenOutputs r) = hiddenSize net" "ncols (hiddenOutputs r) = 1"
    "nrows (finalOutputs r) = outputSize net" "ncols (finalOutputs r) = 1"
    by (simp_all add: shapes_ok_def nd_shape_def)
  have oe: "nd_subtract t (finalOutputs r) = Inr ?oe"
    by (simp add: cwise_same_shape sh spec_outputErrors_def)
  have he: "nd_dot (nd_T (weightsHO net)) ?oe = Inr ?he"
    by (simp add: nd_dot_aligned spec_hiddenErrors_def spec_outputErrors_def sh)
  have ho: "calcAdditionalWeights net (hiddenOutputs r) (finalOutputs r) ?oe = Inr ?dHO"
    by (rule calcAdditionalWeights_aligned) (simp_all add: spec_outputErrors_def sh)
  have ih: "calcAdditionalWeights net x (hiddenOutputs r) ?he = Inr ?dIH"
    by (rule calcAdditionalWeights_aligned)
      (simp_all add: spec_hiddenErrors_def spec_outputErrors_def sh)
  have newHO: "nd_add (weightsHO net) ?dHO = Inr (matrix_plus (weightsHO net) ?dHO)"
    by (rule cwise_same_shape) (simp_all add: spec_delta_def spec_outputErrors_def sh)
  have newIH: "nd_add (weightsIH net) ?dIH = Inr (matrix_plus (weightsIH net) ?dIH)"
    by (rule cwise_same_shape)
      (simp_all add: spec_delta_def spec_hiddenErrors_def spec_outputErrors_def sh)
  show ?thesis
    by (simp add: backPropagation_def oe he ho ih newHO newIH)
qed

lemma spec_delta_entry:
  assumes "i < nrows errs" and "j < nrows ins" and "ncols errs = 1" and "ncols ins = 1"
    and "nrows outs = nrows errs" and "ncols outs = 1"
  shows "nd_get (spec_delta lr errs outs ins) i j =
     lr * (nd_get errs i 0 * nd_get outs i 0 * (1 - nd_get outs i 0) * nd_get ins j 0)"
  using assms by (simp add: spec_delta_def get_simps)

lemma spec_hiddenErrors_entry:
  assumes "j < ncols w" and "ncols t = 1" and "nrows t = nrows w"
  shows "nd_get (spec_hiddenErrors w t r) j 0 =
     (\<Sum>i<nrows w. nd_get w i j * (nd_get t i 0 - nd_get (finalOutputs r) i 0))"
proof -
  have "nd_get (spec_hiddenErrors w t r) j 0 =
     (\<Sum>i<nrows w. nd_get (nd_T w) j i * nd_get (spec_outputErrors t r) i 0)"
    using assms by (simp add: spec_hiddenErrors_def spec_outputErrors_def get_simps(9))
  also have "\<dots> = (\<Sum>i<nrows w. nd_get w i j * (nd_get t i 0 - nd_get (finalOutputs r) i 0))"
    using assms by (intro sum.cong refl) (simp add: get_simps spec_outputErrors_def)
  finally show ?thesis .
qed

text \<open>
  C1. On a network with the shapes of its sizes, for an input column, a target column and a
  forward result of the lengths of the sizes, \<open>backPropagation\<close> returns normally, and with
  \<open>outputErrors = targetColumn - finalOutputs\<close> and
  \<open>hiddenErrors = weightsHO\<^sup>T \<cdot> outputErrors\<close>, taken on the weights before the call:
  \<^item> the new \<open>weightsHO\<close> is the old one plus
    \<open>LR \<cdot> [(outputErrors \<odot> finalOutputs \<odot> (1 - finalOutputs)) \<cdot> hiddenOutputs\<^sup>T]\<close>;
  \<^item> the new \<open>weightsIH\<close> is the old one plus
    \<open>LR \<cdot> [(hiddenErrors \<odot> hiddenOutputs \<odot> (1 - hiddenOutputs)) \<cdot> inputColumn\<^sup>T]\<close>;
  \<^item> entry by entry, \<open>weightsHO\<^sub>i\<^sub>j\<close> grows by \<open>LR * (t\<^sub>i - o\<^sub>i) * o\<^sub>i * (1 - o\<^sub>i) * h\<^sub>j\<close> and
    \<open>weightsIH\<^sub>j\<^sub>k\<close> by \<open>LR * (\<Sum>i. weightsHO\<^sub>i\<^sub>j * (t\<^sub>i - o\<^sub>i)) * h\<^sub>j * (1 - h\<^sub>j) * x\<^sub>k\<close>, the sum
    over the old \<open>weightsHO\<close>.
\<close>

theorem backPropagation_update:
  assumes "shapes_ok net"
    and "nd_shape x = (inputSize net, 1)" and "nd_shape t = (outputSize net, 1)"
    and "nd_shape (hiddenOutputs r) = (hiddenSize net, 1)"
    and "nd_shape (finalOutputs r) = (outputSize net, 1)"
  shows "\<exists>net'. backPropagation net x t r = (Inr (), net')
     \<and> weightsHO net' = matrix_plus (weightsHO net)
         (spec_delta (LR net) (spec_outputErrors t r) (finalOutputs r) (hiddenOutputs r))
     \<and> weightsIH net' = matrix_plus (weightsIH net)
         (spec_delta (LR net) (spec_hiddenErrors (weightsHO net) t r) (hiddenOutputs r) x)
     \<and> (\<forall>i<outputSize net. \<forall>j<hiddenSize net.
          nd_get (weightsHO net') i j = nd_get (weightsHO net) i j
            + LR net * ((nd_get t i 0 - nd_get (finalOutputs r) i 0) * nd_get (finalOutputs r) i 0
                * (1 - nd_get (finalOutputs r) i 0) * nd_get (hiddenOutputs r) j 0))
     \<and> (\<forall>j<hiddenSize net. \<forall>k<inputSize net.
          nd_get (weightsIH net') j k = nd_get (weightsIH net) j k
            + LR net * ((\<Sum>i<outputSize net. nd_get (weightsHO net) i j
                             * (nd_get t i 0 - nd_get (finalOutputs r) i 0))
                * nd_get (hiddenOutputs r) j 0 * (1 - nd_get (hiddenOutputs r) j 0)
                * nd_get x k 0))"
proof -
  let ?dHO = "spec_delta (LR net) (spec_outputErrors t r) (finalOutputs r) (hiddenOutputs r)"
  let ?dIH = "spec_delta (LR net) (spec_hiddenErrors (weightsHO net) t r) (hiddenOutputs r) x"
  let ?net' = "net\<lparr>weightsHO := matrix_plus (weightsHO net) ?dHO,
                   weightsIH := matrix_plus (weightsIH net) ?dIH\<rparr>"
  from assms have sh:
    "nrows (weightsIH net) = hiddenSize net" "ncols (weightsIH net) = inputSize net"
    "nrows (weightsHO net) = outputSize net" "ncols (weightsHO net) = hiddenSize net"
    "nrows x = inputSize net" "ncols x = 1" "nrows t = outputSize net" "ncols t = 1"
    "nrows (hiddenOutputs r) = hiddenSize net" "ncols (hiddenOutputs r) = 1"
    "nrows (finalOutputs r) = outputSize net" "ncols (finalOutputs r) = 1"
    by (simp_all add: shapes_ok_def nd_shape_def)
  have run: "backPropagation net x t r = (Inr (), ?net')"
    by (rule backPropagation_aligned [OF assms])
  have ho: "nd_get (weightsHO ?net') i j = nd_get (weightsHO net) i j
            + LR net * ((nd_get t i 0 - nd_get (finalOutputs r) i 0) * nd_get (finalOutputs r) i 0
                * (1 - nd_get (finalOutputs r) i 0) * nd_get (hiddenOutputs r) j 0)"
    if "i < outputSize net" and "j < hiddenSize net" for i j
  proof -
    have "nd_get ?dHO i j = LR net * (nd_get (spec_outputErrors t r) i 0
        * nd_get (finalOutputs r) i 0 * (1 - nd_get (finalOutputs r) i 0)
        * nd_get (hiddenOutputs r) j 0)"
      using that by (intro spec_delta_entry) (simp_all add: sh spec_outputErrors_def)
    moreover have "nd_get (spec_outputErrors t r) i 0 = nd_get t i 0 - nd_get (finalOutputs r) i 0"
      using that by (simp add: spec_outputErrors_def get_simps sh)
    ultimately show ?thesis using that by (simp add: get_simps sh)
  qed
  have ih: "nd_get (weightsIH ?net') j k = nd_get (weightsIH net) j k
            + LR net * ((\<Sum>i<outputSize net. nd_get (weightsHO net) i j
                             * (nd_get t i 0 - nd_get (finalOutputs r) i 0))
                * nd_get (hiddenOutputs r) j 0 * (1 - nd_get (hiddenOutputs r) j 0)
                * nd_get x k 0)"
    if "j < hiddenSize net" and "k < inputSize net" for j k
  proof -
    have "nd_get ?dIH j k = LR net * (nd_get (spec_hiddenErrors (weightsHO net) t r) j 0
        * nd_get (hiddenOutputs r) j 0 * (1 - nd_get (hiddenOutputs r) j 0) * nd_get x k 0)"
      using that
      by (intro spec_delta_entry) (simp_all add: sh spec_hiddenErrors_def spec_outputErrors_def)
    moreover have "nd_get (spec_hiddenErrors (weightsHO net) t r) j 0 =
        (\<Sum>i<outputSize net. nd_get (weightsHO net) i j
                             * (nd_get t i 0 - nd_get (finalOutputs r) i 0))"
      using that spec_hiddenErrors_entry [of j "weightsHO net" t r] by (simp add: sh)
    ultimately show ?thesis using that by (simp add: get_simps sh)
  qed
  from run ho ih show ?thesis by (intro exI [of _ ?net']) simp
qed

lemma scenario_shapes:
  "nd_shape (column [Num 1, Num 0]) = (inputSize scenario_net, 1)"
  "nd_shape (column [Num 1]) = (outputSize scenario_net, 1)"
  "nd_shape (column [Num (1/2), Num (1/4)]) = (hiddenSize scenario_net, 1)"
  "nd_shape (column [Num (3/4)]) = (outputSize scenario_net, 1)"
  by (simp_all add: nd_shape_def scenario_net_def)

theorem backPropagation_update_witness:
  "shapes_ok scenario_net
   \<and> nd_shape (column [Num 1, Num 0]) = (inputSize scenario_net, 1)
   \<and> nd_shape (column [Num 1]) = (outputSize scenario_net, 1)
   \<and> nd_shape (column [Num (1/2), Num (1/4)]) = (hiddenSize scenario_net, 1)
   \<and> nd_shape (column [Num (3/4)]) = (outputSize scenario_net, 1)
   \<and> (\<exists>net'. backPropagation scenario_net (column [Num 1, Num 0]) (column [Num 1])
                 \<lparr>hiddenOutputs = column [Num (1/2), Num (1/4)],
                  finalOutputs = column [Num (3/4)]\<rparr> = (Inr (), net')
          \<and> nd_get (weightsHO net') 0 0 = Num (131/256)
          \<and> nd_get (weightsHO net') 0 1 = Num (1551/2560)
          \<and> nd_get (weightsIH net') 0 0 = Num (37/320)
          \<and> nd_get (weightsIH net') 0 1 = Num (1/5)
          \<and> nd_get (weightsIH net') 1 0 = Num (201/640)
          \<and> nd_get (weightsIH net') 1 1 = Num (2/5))"
proof -
  let ?r = "\<lparr>hiddenOutputs = column [Num (1/2), Num (1/4)], finalOutputs = column [Num (3/4)]\<rparr>"
  have h: "nd_shape (column [Num 1, Num 0]) = (inputSize scenario_net, 1)"
    "nd_shape (column [Num 1]) = (outputSize scenario_net, 1)"
    "nd_shape (hiddenOutputs ?r) = (hiddenSize scenario_net, 1)"
    "nd_shape (finalOutputs ?r) = (outputSize scenario_net, 1)"
    by (simp_all add: nd_shape_def scenario_net_def)
  from backPropagation_update [OF scenario_net_ok(1) h]
  obtain net' where
    run: "backPropagation scenario_net (column [Num 1, Num 0]) (column [Num 1]) ?r = (Inr (), net')"
    and ho: "\<forall>i<outputSize scenario_net. \<forall>j<hiddenSize scenario_net.
          nd_get (weightsHO net') i j = nd_get (weightsHO scenario_net) i j
            + LR scenario_net * ((nd_get (column [Num 1]) i 0 - nd_get (finalOutputs ?r) i 0)
                * nd_get (finalOutputs ?r) i 0
                * (1 - nd_get (finalOutputs ?r) i 0) * nd_get (hiddenOutputs ?r) j 0)"
    and ih: "\<forall>j<hiddenSize scenario_net. \<forall>k<inputSize scenario_net.
          nd_get (weightsIH net') j k = nd_get (weightsIH scenario_net) j k
            + LR scenario_net * ((\<Sum>i<outputSize scenario_net. nd_get (weightsHO scenario_net) i j
                             * (nd_get (column [Num 1]) i 0 - nd_get (finalOutputs ?r) i 0))
                * nd_get (hiddenOutputs ?r) j 0 * (1 - nd_get (hiddenOutputs ?r) j 0)
                * nd_get (column [Num 1, Num 0]) k 0)"
    by blast
  have c: "nd_get (column [Num 1]) 0 0 = Num 1" "nd_get (column [Num (3/4)]) 0 0 = Num (3/4)"
    "nd_get (column [Num (1/2), Num (1/4)]) 0 0 = Num (1/2)"
    "nd_get (column [Num (1/2), Num (1/4)]) (Suc 0) 0 = Num (1/4)"
    "nd_get (column [Num 1, Num 0]) 0 0 = Num 1"
    "nd_get (column [Num 1, Num 0]) (Suc 0) 0 = Num 0"
    by simp_all
  from ho [rule_format, of 0 0] have a: "nd_get (weightsHO net') 0 0 = Num (131/256)"
    by (simp add: scenario_fields scenario_entries c one_js_number_def)
  from ho [rule_format, of 0 1] have b: "nd_get (weightsHO net') 0 1 = Num (1551/2560)"
    by (simp add: scenario_fields scenario_entries c one_js_number_def)
  from ih [rule_format, of 0 0] have d: "nd_get (weightsIH net') 0 0 = Num (37/320)"
    by (simp add: scenario_fields scenario_entries c one_js_number_def)
  from ih [rule_format, of 0 1] have e: "nd_get (weightsIH net') 0 1 = Num (1/5)"
    by (simp add: scenario_fields scenario_entries c one_js_number_def)
  from ih [rule_format, of 1 0] have f: "nd_get (weightsIH net') 1 0 = Num (201/640)"
    by (simp add: scenario_fields scenario_entries c one_js_number_def)
  from ih [rule_format, of 1 1] have g: "nd_get (weightsIH net') 1 1 = Num (2/5)"
    by (simp add: scenario_fields scenario_entries c one_js_number_def)
  from scenario_net_ok(1) scenario_shapes run a b d e f g show ?thesis by blast
qed

section \<open>Rejection of an input of the wrong length\<close>

text \<open>
  C5. On a network whose \<open>weightsIH\<close> has \<open>inputSize\<close> columns, \<open>query\<close> with an array whose
  length is not \<open>inputSize\<close> throws: the first \<^verbatim>\<open>dot\<close> of the forward pass raises the
  ValueError of numjs, which is the dimension mismatch of the specification, whatever the
  activation strategy is.
\<close>

theorem query_wrong_length_fails:
  "shapes_ok net \<Longrightarrow> length xs \<noteq> inputSize net \<Longrightarrow> query net xs = Inl ValueError"
  by (simp add: query_def forwardPropagation_def nd_dot_def shapes_ok_def)

theorem query_wrong_length_fails_witness:
  "shapes_ok (new_Network (\<lambda>i j. Num 0) (\<lambda>i j. Num 0) 3 2 1 None)
   \<and> length [Num 1, Num 2] \<noteq> inputSize (new_Network (\<lambda>i j. Num 0) (\<lambda>i j. Num 0) 3 2 1 None)
   \<and> query (new_Network (\<lambda>i j. Num 0) (\<lambda>i j. Num 0) 3 2 1 None) [Num 1, Num 2]
       = Inl ValueError"
proof -
  have s: "shapes_ok (new_Network (\<lambda>i j. Num 0) (\<lambda>i j. Num 0) 3 2 1 None)"
    by (simp add: shapes_ok_def new_Network_def generateWeights_def nj_random_def
        nd_subtract_scalar_def)
  have l: "length [Num 1, Num 2]
      \<noteq> inputSize (new_Network (\<lambda>i j. Num 0) (\<lambda>i j. Num 0) 3 2 1 None)"
    by (simp add: new_Network_def)
  from query_wrong_length_fails [OF s l] s l show ?thesis by simp
qed

section \<open>Training on well-formed items\<close>

text \<open>
  A step on a well-formed item returns normally, and so does a whole call of \<open>train\<close>
  whose sampler stays inside the training set: the invariants below are not about runs
  that all throw.
\<close>

lemma trainStep_returns:
  assumes "shapes_ok net" and "shape_preserving (activator net)"
    and "length xs = inputSize net" and "length ts = outputSize net"
  shows "fst (trainStep net xs ts) = Inr () \<and> shapes_ok (snd (trainStep net xs ts))"
proof -
  let ?h = "execute (activator net) (matrix_product (weightsIH net) (column xs))"
  let ?out = "execute (activator net) (matrix_product (weightsHO net) ?h)"
  let ?r = "\<lparr>hiddenOutputs = ?h, finalOutputs = ?out\<rparr>"
  from assms have fp: "forwardPropagation net (column xs) = Inr ?r"
    by (simp add: forwardPropagation_aligned)
  from assms have "nd_shape (column xs) = (inputSize net, 1)"
    and "nd_shape (column ts) = (outputSize net, 1)"
    and "nd_shape (hiddenOutputs ?r) = (hiddenSize net, 1)"
    and "nd_shape (finalOutputs ?r) = (outputSize net, 1)"
    by (simp_all add: nd_shape_def shapes_ok_def shape_preserving_def)
  from backPropagation_aligned [OF assms(1) this] fp
  have "fst (trainStep net xs ts) = Inr ()"
    by (simp add: trainStep_def)
  moreover from trainStep_frame [of net xs ts] assms(1)
  have "shapes_ok (snd (trainStep net xs ts))"
    by (simp add: shapes_ok_def)
  ultimately show ?thesis by simp
qed

lemma train_loop_returns:
  "shapes_ok net \<Longrightarrow> shape_preserving (activator net) \<Longrightarrow>
   list_all (well_formed_item net) ts \<Longrightarrow>
   (\<forall>j. int j < counter \<longrightarrow>
      0 \<le> g (k + j) 0 (int (length ts)) \<and> g (k + j) 0 (int (length ts)) < int (length ts)) \<Longrightarrow>
   fst (train_loop g k ts counter net) = Inr ()"
proof (induction g k ts counter net rule: train_loop.induct)
  case (1 g k ts counter net)
  show ?case
  proof (cases "0 < counter")
    case False
    then show ?thesis by (simp add: train_loop_stop)
  next
    case pos: True
    let ?i = "g k 0 (int (length ts))"
    let ?item = "ts ! nat ?i"
    let ?net' = "snd (trainStep net (inputs ?item) (targets ?item))"
    from "1.prems"(4) [rule_format, of 0] pos have range: "0 \<le> ?i" "?i < int (length ts)"
      by simp_all
    then have idx: "js_index ts ?i = Some ?item"
      by (simp add: js_index_def)
    from range have "?item \<in> set ts" by (simp add: nat_less_iff)
    with "1.prems"(3) have wf: "well_formed_item net ?item"
      by (simp add: list_all_iff)
    from trainStep_returns [OF "1.prems"(1,2), of "inputs ?item" "targets ?item"] wf
    have step: "fst (trainStep net (inputs ?item) (targets ?item)) = Inr ()"
      and ok: "shapes_ok ?net'"
      by (simp_all add: well_formed_item_def)
    from trainStep_frame [of net "inputs ?item" "targets ?item"]
    have act: "activator ?net' = activator net"
      and sz: "inputSize ?net' = inputSize net" "outputSize ?net' = outputSize net"
      by simp_all
    from sz have "well_formed_item ?net' = well_formed_item net"
      by (simp add: fun_eq_iff well_formed_item_def)
    with "1.prems"(3) have items: "list_all (well_formed_item ?net') ts"
      by simp
    have rest: "\<forall>j. int j < counter - 1 \<longrightarrow>
        0 \<le> g (Suc k + j) 0 (int (length ts)) \<and> g (Suc k + j) 0 (int (length ts)) < int (length ts)"
    proof (intro allI impI)
      fix j assume "int j < counter - 1"
      then have "int (Suc j) < counter" by simp
      with "1.prems"(4) [rule_format, of "Suc j"]
      show "0 \<le> g (Suc k + j) 0 (int (length ts)) \<and> g (Suc k + j) 0 (int (length ts)) < int (length ts)"
        by simp
    qed
    from "1.prems"(2) act have sp: "shape_preserving (activator ?net')" by simp
    from "1.IH" [OF pos idx step ok sp items rest] pos idx step
    show ?thesis by (simp add: train_loop.simps [of g k ts counter net])
  qed
qed

lemma train_well_formed_returns:
  assumes "shapes_ok net"
    and "shape_preserving (case act of None \<Rightarrow> activator net | Some a \<Rightarrow> a)"
    and "list_all (well_formed_item net) ts"
    and "\<forall>k. int k < count \<longrightarrow>
      0 \<le> g k 0 (int (length ts)) \<and> g k 0 (int (length ts)) < int (length ts)"
  shows "fst (train g net ts count act) = Inr ()"
proof -
  let ?m = "case act of None \<Rightarrow> net | Some a \<Rightarrow> net\<lparr>activator := a\<rparr>"
  from assms(1) have ok: "shapes_ok ?m"
    by (simp add: shapes_ok_def split: option.splits)
  from assms(2) have sp: "shape_preserving (activator ?m)"
    by (simp split: option.splits)
  have "well_formed_item ?m = well_formed_item net"
    by (simp add: fun_eq_iff well_formed_item_def split: option.splits)
  with assms(3) have items: "list_all (well_formed_item ?m) ts" by simp
  from assms(4) have draws: "\<forall>j. int j < count \<longrightarrow>
      0 \<le> g (0 + j) 0 (int (length ts)) \<and> g (0 + j) 0 (int (length ts)) < int (length ts)"
    by simp
  from train_loop_returns [where g = g and k = 0 and counter = count, OF ok sp items draws]
  show ?thesis
    by (simp add: train_def)
qed

section \<open>Determinism of training\<close>

lemma forwardPropagation_same:
  "same_parameters n1 n2 \<Longrightarrow> forwardPropagation n1 x = forwardPropagation n2 x"
  by (simp add: same_parameters_def forwardPropagation_def split: sum.splits)

lemma calcAdditionalWeights_same:
  "LR n1 = LR n2 \<Longrightarrow> calcAdditionalWeights n1 a b c = calcAdditionalWeights n2 a b c"
  by (simp add: calcAdditionalWeights_def split: sum.splits)

lemma backPropagation_same:
  assumes "same_parameters n1 n2"
  shows "fst (backPropagation n1 x t r) = fst (backPropagation n2 x t r) \<and>
     same_parameters (snd (backPropagation n1 x t r)) (snd (backPropagation n2 x t r))"
proof -
  from assms have lr: "LR n1 = LR n2" and ho: "weightsHO n1 = weightsHO n2"
    and ih: "weightsIH n1 = weightsIH n2" and ac: "activator n1 = activator n2"
    by (simp_all add: same_parameters_def)
  show ?thesis
    unfolding backPropagation_def calcAdditionalWeights_same [OF lr] ho ih
    by (simp add: same_parameters_def lr ac ih ho split: sum.splits)
qed

lemma trainStep_same:
  assumes "same_parameters n1 n2"
  shows "fst (trainStep n1 xs ts) = fst (trainStep n2 xs ts) \<and>
     same_parameters (snd (trainStep n1 xs ts)) (snd (trainStep n2 xs ts))"
  unfolding trainStep_def forwardPropagation_same [OF assms]
  using assms backPropagation_same [OF assms]
  by (simp split: sum.splits)

text \<open>
  The loop on two networks with the same parameters and two samplers whose next \<open>counter\<close>
  draws agree: the same outcome, and again the same parameters.
\<close>

lemma train_loop_same:
  "same_parameters n1 n2 \<Longrightarrow>
   (\<forall>j. int j < counter \<longrightarrow> g1 (k + j) 0 (int (length ts)) = g2 (k + j) 0 (int (length ts))) \<Longrightarrow>
   fst (train_loop g1 k ts counter n1) = fst (train_loop g2 k ts counter n2) \<and>
   same_parameters (snd (train_loop g1 k ts counter n1)) (snd (train_loop g2 k ts counter n2))"
proof (induction g1 k ts counter n1 arbitrary: n2 rule: train_loop.induct)
  case (1 g1 k ts counter n1)
  show ?case
  proof (cases "0 < counter")
    case False
    with "1.prems" show ?thesis by (simp add: train_loop_stop)
  next
    case pos: True
    from "1.prems"(2) [rule_format, of 0] pos
    have draw: "g2 k 0 (int (length ts)) = g1 k 0 (int (length ts))"
      by simp
    show ?thesis
    proof (cases "js_index ts (g1 k 0 (int (length ts)))")
      case None
      with pos draw "1.prems"(1) show ?thesis
        by (simp add: train_loop.simps [of _ k ts counter])
    next
      case (Some item)
      from trainStep_same [OF "1.prems"(1), of "inputs item" "targets item"]
      have out: "fst (trainStep n2 (inputs item) (targets item))
          = fst (trainStep n1 (inputs item) (targets item))"
        and same: "same_parameters (snd (trainStep n1 (inputs item) (targets item)))
          (snd (trainStep n2 (inputs item) (targets item)))"
        by simp_all
      show ?thesis
      proof (cases "fst (trainStep n1 (inputs item) (targets item))")
        case (Inl e)
        with out same pos draw Some show ?thesis
          by (simp add: train_loop.simps [of _ k ts counter])
      next
        case (Inr u)
        have rest: "\<forall>j. int j < counter - 1 \<longrightarrow>
            g1 (Suc k + j) 0 (int (length ts)) = g2 (Suc k + j) 0 (int (length ts))"
        proof (intro allI impI)
          fix j assume "int j < counter - 1"
          then have "int (Suc j) < counter" by simp
          with "1.prems"(2) [rule_format, of "Suc j"]
          show "g1 (Suc k + j) 0 (int (length ts)) = g2 (Suc k + j) 0 (int (length ts))"
            by simp
        qed
        from "1.IH" [OF pos Some Inr same rest] pos draw Some Inr out
        show ?thesis by (simp add: train_loop.simps [of _ k ts counter])
      qed
    qed
  qed
qed

text \<open>
  C8. Two runs of \<open>train\<close> with the same training set, count and optional activator, on
  networks with identical weights (and the same stored strategy and learning rate), with
  samplers that return the same index in each of the \<open>count\<close> draws, end with identical
  \<open>weightsIH\<close> and \<open>weightsHO\<close>, and with the same outcome. What a sampler would return
  after these draws, and the sizes recorded in the networks, play no part.
\<close>

theorem train_deterministic:
  assumes "weightsIH n1 = weightsIH n2" and "weightsHO n1 = weightsHO n2"
    and "activator n1 = activator n2" and "LR n1 = LR n2"
    and "\<forall>k. int k < count \<longrightarrow> g1 k 0 (int (length ts)) = g2 k 0 (int (length ts))"
  shows "weightsIH (snd (train g1 n1 ts count act)) = weightsIH (snd (train g2 n2 ts count act))
    \<and> weightsHO (snd (train g1 n1 ts count act)) = weightsHO (snd (train g2 n2 ts count act))
    \<and> fst (train g1 n1 ts count act) = fst (train g2 n2 ts count act)"
proof -
  let ?m1 = "case act of None \<Rightarrow> n1 | Some a \<Rightarrow> n1\<lparr>activator := a\<rparr>"
  let ?m2 = "case act of None \<Rightarrow> n2 | Some a \<Rightarrow> n2\<lparr>activator := a\<rparr>"
  from assms(1-4) have same: "same_parameters ?m1 ?m2"
    by (simp add: same_parameters_def split: option.splits)
  from assms(5) have draws:
    "\<forall>j. int j < count \<longrightarrow> g1 (0 + j) 0 (int (length ts)) = g2 (0 + j) 0 (int (length ts))"
    by simp
  from train_loop_same [where ?n1.0 = ?m1 and ?n2.0 = ?m2 and counter = count and ?g1.0 = g1
      and k = 0 and ts = ts and ?g2.0 = g2, OF same draws]
  show ?thesis
    by (simp add: train_def same_parameters_def)
qed

theorem train_deterministic_witness:
  "weightsIH (snd (train (\<lambda>k lo hi. 0) scenario_net [scenario_item] 2 None))
     = weightsIH (snd (train (\<lambda>k lo hi. if k < 2 then 0 else 5) scenario_net [scenario_item] 2 None))
   \<and> weightsHO (snd (train (\<lambda>k lo hi. 0) scenario_net [scenario_item] 2 None))
     = weightsHO (snd (train (\<lambda>k lo hi. if k < 2 then 0 else 5) scenario_net [scenario_item] 2 None))
   \<and> fst (train (\<lambda>k lo hi. if k < 2 then 0 else 5) scenario_net [scenario_item] 2 None) = Inr ()"
proof -
  let ?g1 = "\<lambda>(k::nat) (lo::int) (hi::int). 0::int"
  let ?g2 = "\<lambda>(k::nat) (lo::int) (hi::int). if k < 2 then 0 else 5::int"
  have draws: "\<forall>k. int k < 2 \<longrightarrow>
      ?g1 k 0 (int (length [scenario_item])) = ?g2 k 0 (int (length [scenario_item]))"
    by simp
  have items: "list_all (well_formed_item scenario_net) [scenario_item]"
    by (simp add: well_formed_item_def scenario_item_def scenario_fields)
  have range: "\<forall>k. int k < 2 \<longrightarrow>
      0 \<le> ?g2 k 0 (int (length [scenario_item]))
      \<and> ?g2 k 0 (int (length [scenario_item])) < int (length [scenario_item])"
    by simp
  have sp: "shape_preserving (case None of None \<Rightarrow> activator scenario_net | Some a \<Rightarrow> a)"
    by (simp add: scenario_net_ok)
  have returns: "fst (train ?g2 scenario_net [scenario_item] 2 None) = Inr ()"
    by (rule train_well_formed_returns [where g = ?g2 and act = None and count = 2,
          OF scenario_net_ok(1) sp items range])
  from train_deterministic [of scenario_net scenario_net 2 ?g1 "[scenario_item]" ?g2 None,
      OF refl refl refl refl draws] returns
  show ?thesis by simp
qed

section \<open>The shapes of the weight matrices\<close>

lemma backPropagation_consistent:
  "nd_consistent (weightsIH net) \<and> nd_consistent (weightsHO net) \<Longrightarrow>
   nd_consistent (weightsIH (snd (backPropagation net x t r))) \<and>
   nd_consistent (weightsHO (snd (backPropagation net x t r)))"
  by (auto simp: backPropagation_def split: sum.splits dest: nd_add_result)

lemma trainStep_consistent:
  "nd_consistent (weightsIH net) \<and> nd_consistent (weightsHO net) \<Longrightarrow>
   nd_consistent (weightsIH (snd (trainStep net xs ts))) \<and>
   nd_consistent (weightsHO (snd (trainStep net xs ts)))"
  using backPropagation_consistent [of net]
  by (simp add: trainStep_def split: sum.splits)

lemma train_loop_consistent:
  "nd_consistent (weightsIH net) \<and> nd_consistent (weightsHO net) \<Longrightarrow>
   nd_consistent (weightsIH (snd (train_loop g k ts counter net))) \<and>
   nd_consistent (weightsHO (snd (train_loop g k ts counter net)))"
proof (induction g k ts counter net rule: train_loop.induct)
  case (1 g k ts counter net)
  show ?case
  proof (cases "0 < counter")
    case False
    with "1.prems" show ?thesis by (simp add: train_loop_stop)
  next
    case pos: True
    show ?thesis
    proof (cases "js_index ts (g k 0 (int (length ts)))")
      case None
      with pos "1.prems" show ?thesis by (simp add: train_loop.simps [of g k ts counter net])
    next
      case (Some item)
      note step = trainStep_consistent [OF "1.prems", of "inputs item" "targets item"]
      show ?thesis
      proof (cases "fst (trainStep net (inputs item) (targets item))")
        case (Inl e)
        with pos Some step show ?thesis
          by (simp add: train_loop.simps [of g k ts counter net])
      next
        case (Inr u)
        from "1.IH" [OF pos Some Inr step] pos Some Inr
        show ?thesis by (simp add: train_loop.simps [of g k ts counter net])
      qed
    qed
  qed
qed

lemma train_keeps_shapes:
  "nd_shape (weightsIH (snd (train g net ts count act))) = nd_shape (weightsIH net) \<and>
   nd_shape (weightsHO (snd (train g net ts count act))) = nd_shape (weightsHO net)"
  by (simp add: train_def nd_shape_def train_loop_frame split: option.splits)

lemma train_consistent:
  "nd_consistent (weightsIH net) \<and> nd_consistent (weightsHO net) \<Longrightarrow>
   nd_consistent (weightsIH (snd (train g net ts count act))) \<and>
   nd_consistent (weightsHO (snd (train g net ts count act)))"
  unfolding train_def by (rule train_loop_consistent) (simp split: option.splits)

lemma train_calls_keep_shapes:
  "nd_shape (weightsIH (train_calls calls net)) = nd_shape (weightsIH net) \<and>
   nd_shape (weightsHO (train_calls calls net)) = nd_shape (weightsHO net)"
proof (induction calls arbitrary: net)
  case Nil
  show ?case by simp
next
  case (Cons c calls)
  obtain g ts count act where c: "c = (g, ts, count, act)" by (cases c) auto
  from Cons.IH [of "snd (train g net ts count act)"] train_keeps_shapes [of g net ts count act]
  show ?case by (simp add: c)
qed

lemma train_calls_consistent:
  "nd_consistent (weightsIH net) \<and> nd_consistent (weightsHO net) \<Longrightarrow>
   nd_consistent (weightsIH (train_calls calls net)) \<and>
   nd_consistent (weightsHO (train_calls calls net))"
proof (induction calls arbitrary: net)
  case Nil
  then show ?case by simp
next
  case (Cons c calls)
  obtain g ts count act where c: "c = (g, ts, count, act)" by (cases c) auto
  from Cons.IH [OF train_consistent [OF Cons.prems, of g ts count act]]
  show ?case by (simp add: c)
qed

lemma new_Network_shapes:
  "nd_shape (weightsIH (new_Network r1 r2 i h o' lr)) = (h, i) \<and>
   nd_shape (weightsHO (new_Network r1 r2 i h o' lr)) = (o', h) \<and>
   nd_consistent (weightsIH (new_Network r1 r2 i h o' lr)) \<and>
   nd_consistent (weightsHO (new_Network r1 r2 i h o' lr))"
  by (simp add: new_Network_def generateWeights_def nd_subtract_scalar_def nj_random_def
      nd_shape_def)

text \<open>
  Every network the program can reach, by construction and calls of \<open>train\<close>, has the
  shapes of its sizes: the hypothesis \<open>shapes_ok\<close> of the theorems above holds of it.
\<close>

lemma train_shapes_ok: "shapes_ok net \<Longrightarrow> shapes_ok (snd (train g net ts count act))"
  by (simp add: train_def shapes_ok_def train_loop_frame split: option.splits)

lemma reachable_shapes_ok:
  "shapes_ok (train_calls calls (new_Network r1 r2 i h o' lr))"
proof -
  have start: "shapes_ok (new_Network r1 r2 i h o' lr)"
    by (simp add: shapes_ok_def new_Network_def generateWeights_def nd_subtract_scalar_def
        nj_random_def)
  have "shapes_ok net \<Longrightarrow> shapes_ok (train_calls calls net)" for net
  proof (induction calls arbitrary: net)
    case Nil
    then show ?case by simp
  next
    case (Cons c calls)
    obtain g ts count act where c: "c = (g, ts, count, act)" by (cases c) auto
    from Cons.IH [OF train_shapes_ok [OF Cons.prems, of g ts count act]]
    show ?case by (simp add: c)
  qed
  from this [OF start] show ?thesis .
qed

text \<open>
  C3. Right after construction \<open>weightsIH\<close> has the shape \<open>(hiddenSize, inputSize)\<close> and
  \<open>weightsHO\<close> the shape \<open>(outputSize, hiddenSize)\<close>, and both still have it after any
  sequence of calls of \<open>train\<close>, with rows of that many numbers. This holds for all sizes
  and all training items, the positive sizes and the well-formed items among them: a
  step either throws before it assigns a weight matrix or assigns \<^verbatim>\<open>weights.add(delta)\<close>,
  which returns only when \<open>delta\<close> has the shape of \<open>weights\<close>.
\<close>

theorem shapes_invariant:
  "nd_shape (weightsIH (new_Network r1 r2 i h o' lr)) = (h, i)
   \<and> nd_shape (weightsHO (new_Network r1 r2 i h o' lr)) = (o', h)
   \<and> nd_shape (weightsIH (train_calls calls (new_Network r1 r2 i h o' lr))) = (h, i)
   \<and> nd_shape (weightsHO (train_calls calls (new_Network r1 r2 i h o' lr))) = (o', h)
   \<and> nd_consistent (weightsIH (train_calls calls (new_Network r1 r2 i h o' lr)))
   \<and> nd_consistent (weightsHO (train_calls calls (new_Network r1 r2 i h o' lr)))"
  using new_Network_shapes [of r1 r2 i h o' lr]
    train_calls_keep_shapes [of calls "new_Network r1 r2 i h o' lr"]
    train_calls_consistent [of "new_Network r1 r2 i h o' lr" calls]
  by simp

end
